theory Spec2Isabelle
  imports Main "HOL-Library.Word"
begin

section \<open>Go values used by the samples\<close>

text \<open>
  Go's \<open>int\<close> is taken at its width on 64-bit platforms: a 64-bit two's complement
  word, read with \<open>sint\<close>. Go strings are byte strings, as \<open>string\<close> is here. A
  pointer is an \<open>option\<close>, \<open>None\<close> being \<open>nil\<close>.
\<close>

type_synonym int64 = "64 word"

text \<open>
  An \<open>error\<close> value. \<open>Done\<close> is \<open>iterator.Done\<close>, the one error the samples compare
  against; \<open>RemoteError m\<close> is any other error handed back by a client library, with
  message \<open>m\<close>; \<open>errorString m\<close> is what \<open>fmt.Errorf\<close> builds when its format has no
  \<open>%w\<close>. A value of Go type \<open>error\<close> is an \<open>error option\<close>.
\<close>

datatype error =
    Done
  | RemoteError string
  | errorString string

fun Error :: "error \<Rightarrow> string" where
  "Error Done = ''no more items in iterator''"
| "Error (RemoteError m) = m"
| "Error (errorString m) = m"

section \<open>Messages of the Container Analysis API\<close>

text \<open>
  The fields of \<open>grafeaspb.Note\<close> and \<open>grafeaspb.Occurrence\<close> that the samples set or
  that name the record on the server. \<open>Vulnerability\<close> and \<open>Details\<close> are the zero
  values \<open>vulnerability.Vulnerability{}\<close> and \<open>vulnerability.Details{}\<close>.
\<close>

datatype Vulnerability = Vulnerability

datatype Details = Details

datatype isNote_Type = Note_Vulnerability "Vulnerability option"

record Note =
  Note_Name :: string
  Note_Type :: "isNote_Type option"

record Resource =
  Uri :: string

datatype isOccurrence_Details = Occurrence_Vulnerability "Details option"

record Occurrence =
  Occurrence_Name :: string
  Occurrence_Resource :: "Resource option"
  NoteName :: string
  Occurrence_Details :: "isOccurrence_Details option"

datatype request =
    CreateNoteRequest (Parent: string) (NoteId: string) (Note: "Note option")
  | CreateOccurrenceRequest (Parent: string) (Occurrence: "Occurrence option")
  | UpdateNoteRequest (Name: string) (Note: "Note option")
  | UpdateOccurrenceRequest (Name: string) (Occurrence: "Occurrence option")
  | DeleteNoteRequest (Name: string)
  | DeleteOccurrenceRequest (Name: string)
  | GetNoteRequest (Name: string)
  | GetOccurrenceRequest (Name: string)
  | ListOccurrencesRequest (Parent: string) (Filter: string)
  | ListNoteOccurrencesRequest (Name: string)

text \<open>
  An \<open>OccurrenceIterator\<close> is the cursor a listing call returns: \<open>it i\<close> is what the
  call number \<open>i\<close> of \<open>it.Next()\<close> returns, counting from 0.
\<close>

type_synonym OccurrenceIterator = "nat \<Rightarrow> Occurrence option \<times> error option"

text \<open>
  The \<open>GrafeasV1Beta1Client\<close>, as a fake service: what each remote method answers to a
  request.
\<close>

record client =
  CreateNote :: "request \<Rightarrow> Note option \<times> error option"
  CreateOccurrence :: "request \<Rightarrow> Occurrence option \<times> error option"
  UpdateNote :: "request \<Rightarrow> Note option \<times> error option"
  UpdateOccurrence :: "request \<Rightarrow> Occurrence option \<times> error option"
  DeleteNote :: "request \<Rightarrow> error option"
  DeleteOccurrence :: "request \<Rightarrow> error option"
  GetNote :: "request \<Rightarrow> Note option \<times> error option"
  GetOccurrence :: "request \<Rightarrow> Occurrence option \<times> error option"
  ListOccurrences :: "request \<Rightarrow> OccurrenceIterator"
  ListNoteOccurrences :: "request \<Rightarrow> OccurrenceIterator"

section \<open>Cloud Pub/Sub and the Healthcare API\<close>

record Message =
  ID :: string
  Data :: string

record Topic =
  Topic_project :: string
  Topic_ID :: string

record SubscriptionConfig =
  config_Topic :: "Topic option"

text \<open>
  The Pub/Sub library and service for one run. \<open>NewClient projectID\<close> is the error of
  \<open>pubsub.NewClient\<close>. \<open>Receive projectID subscriptionID d\<close> is one session of
  \<open>sub.Receive\<close> under a context that expires after \<open>d\<close> nanoseconds: the messages
  handed to the callback before the session ends, in the order in which the callbacks
  hold the mutex, and the error \<open>Receive\<close> returns. The callback's whole body runs
  under \<open>mu\<close>, so the concurrent deliveries of the library act one after the other.
\<close>

record pubsub =
  NewClient :: "string \<Rightarrow> error option"
  Receive :: "string \<Rightarrow> string \<Rightarrow> int64 \<Rightarrow> Message list \<times> error option"
  CreateSubscription :: "string \<Rightarrow> string \<Rightarrow> SubscriptionConfig \<Rightarrow> error option"

text \<open>
  The Healthcare library and service: the error of \<open>healthcare.NewService\<close>, and the
  error of \<open>datasetsService.Delete(name).Do()\<close>.
\<close>

record healthcare =
  NewService :: "error option"
  Datasets_Delete_Do :: "string \<Rightarrow> error option"

section \<open>What a run leaves behind\<close>

text \<open>
  The remote calls issued, in order, and the writes to standard output, one entry for
  each call of \<open>fmt.Println\<close> or \<open>fmt.Printf\<close>.
\<close>

datatype call =
    Grafeas request
  | Subscription_Receive string string int64
  | Message_Ack string
  | Client_CreateSubscription string string SubscriptionConfig
  | Datasets_Delete string

record world =
  stdout :: "string list"
  calls :: "call list"

definition invoke :: "call \<Rightarrow> world \<Rightarrow> world" where
  "invoke c w = w\<lparr>calls := calls w @ [c]\<rparr>"

section \<open>The fragment of package fmt that the samples use\<close>

text \<open>
  What the imported Go packages compute and the model takes as given:
  \<^item> \<open>escapeMultibyte s\<close>, for a string \<open>s\<close> whose first byte is \<open>0x80\<close> or more: what
    \<open>strconv.Quote\<close> writes for the first rune of \<open>s\<close> (UTF-8 decoding and the Unicode
    tables of printable runes decide it), and how many bytes that rune takes (a width
    of 0 counts as 1: the loop of \<open>strconv.Quote\<close> always moves on);
  \<^item> \<open>Note_String\<close> and \<open>Occurrence_String\<close>: the generated \<open>String\<close> methods of the two
    protocol buffer messages.
\<close>

record go =
  escapeMultibyte :: "string \<Rightarrow> string \<times> nat"
  Note_String :: "Note \<Rightarrow> string"
  Occurrence_String :: "Occurrence \<Rightarrow> string"

definition lowerhex :: "nat \<Rightarrow> char" where
  "lowerhex n = ''0123456789abcdef'' ! n"

text \<open>
  \<open>strconv.appendEscapedRune\<close> on a rune below \<open>0x80\<close>, with the double quote as the
  quote character: the quote and the backslash get a backslash, a printable byte
  (\<open>0x20\<close> to \<open>0x7E\<close>) stands for itself, seven control bytes have a letter escape, and
  the others are written \<open>\x\<close> and two hexadecimal digits.
\<close>

definition escapeASCII :: "char \<Rightarrow> string" where
  "escapeASCII c =
     (let r = (of_char c :: nat) in
      if c = CHR 0x22 \<or> c = CHR 0x5C then [CHR 0x5C, c]
      else if 0x20 \<le> r \<and> r \<le> 0x7E then [c]
      else if r = 0x07 then [CHR 0x5C, CHR ''a'']
      else if r = 0x08 then [CHR 0x5C, CHR ''b'']
      else if r = 0x0C then [CHR 0x5C, CHR ''f'']
      else if r = 0x0A then [CHR 0x5C, CHR ''n'']
      else if r = 0x0D then [CHR 0x5C, CHR ''r'']
      else if r = 0x09 then [CHR 0x5C, CHR ''t'']
      else if r = 0x0B then [CHR 0x5C, CHR ''v'']
      else [CHR 0x5C, CHR ''x'', lowerhex (r div 16), lowerhex (r mod 16)])"

function appendQuoted :: "go \<Rightarrow> string \<Rightarrow> string" where
  "appendQuoted rt [] = []"
| "appendQuoted rt (c # s) =
     (if (of_char c :: nat) < 0x80 then escapeASCII c @ appendQuoted rt s
      else (case escapeMultibyte rt (c # s) of
              (out, width) \<Rightarrow> out @ appendQuoted rt (drop (width - 1) s)))"
  by pat_completeness auto
termination
  by (relation "measure (\<lambda>(rt, s). length s)") auto

definition Quote :: "go \<Rightarrow> string \<Rightarrow> string" where
  "Quote rt s = CHR 0x22 # appendQuoted rt s @ [CHR 0x22]"

function digits :: "nat \<Rightarrow> string" where
  "digits n = (if n < 10 then [''0123456789'' ! n]
               else digits (n div 10) @ [''0123456789'' ! (n mod 10)])"
  by pat_completeness auto
termination
  by (relation "measure (\<lambda>n. n)") auto

declare digits.simps [simp del]

definition Itoa :: "int \<Rightarrow> string" where
  "Itoa i = (if i < 0 then CHR ''-'' # digits (nat (- i)) else digits (nat i))"

text \<open>
  The operands the samples pass to the formatting functions: a string, an \<open>int\<close>, a
  non-nil error.
\<close>

datatype arg = string_arg string | int_arg int64 | error_arg error

fun typeName :: "arg \<Rightarrow> string" where
  "typeName (string_arg s) = ''string''"
| "typeName (int_arg i) = ''int''"
| "typeName (error_arg e) = ''error''"

fun printValue :: "arg \<Rightarrow> string" where
  "printValue (string_arg s) = s"
| "printValue (int_arg i) = Itoa (sint i)"
| "printValue (error_arg e) = Error e"

definition badVerb :: "char \<Rightarrow> arg \<Rightarrow> string" where
  "badVerb verb a = ''%!'' @ [verb] @ ''('' @ typeName a @ ''='' @ printValue a @ '')''"

definition fmtString :: "go \<Rightarrow> char \<Rightarrow> string \<Rightarrow> string option" where
  "fmtString rt verb s =
     (if verb = CHR ''v'' \<or> verb = CHR ''s'' then Some s
      else if verb = CHR ''q'' then Some (Quote rt s)
      else None)"

text \<open>
  One operand under one verb: \<open>%s\<close>, \<open>%v\<close> and \<open>%q\<close> for a string, \<open>%d\<close> and \<open>%v\<close> for
  an \<open>int\<close>; an error is formatted as the string its \<open>Error\<close> method returns. These are
  the verbs of the samples' format strings. Flags, widths and the other verbs of fmt
  are not part of the fragment, and no format string of the samples reaches them:
  \<open>printArg\<close> answers them with the marker fmt writes for a verb that does not fit its
  operand (for an error operand the marker names the type \<open>error\<close>, the dynamic type
  of a library error being unknown here).
\<close>

fun printArg :: "go \<Rightarrow> arg \<Rightarrow> char \<Rightarrow> string" where
  "printArg rt (string_arg s) verb =
     (case fmtString rt verb s of Some t \<Rightarrow> t | None \<Rightarrow> badVerb verb (string_arg s))"
| "printArg rt (int_arg i) verb =
     (if verb = CHR ''v'' \<or> verb = CHR ''d'' then Itoa (sint i) else badVerb verb (int_arg i))"
| "printArg rt (error_arg e) verb =
     (case fmtString rt verb (Error e) of Some t \<Rightarrow> t | None \<Rightarrow> badVerb verb (error_arg e))"

fun extraArgs :: "arg list \<Rightarrow> string" where
  "extraArgs [] = []"
| "extraArgs [a] = typeName a @ ''='' @ printValue a"
| "extraArgs (a # as) = typeName a @ ''='' @ printValue a @ '', '' @ extraArgs as"

text \<open>
  The loop of \<open>doPrintf\<close>: text up to a \<open>%\<close> is copied, \<open>%%\<close> is a percent sign, a verb
  consumes the next operand; a missing verb, a missing operand and operands left over
  are reported in the output.
\<close>

fun doPrintf :: "go \<Rightarrow> string \<Rightarrow> arg list \<Rightarrow> string" where
  "doPrintf rt [] [] = []"
| "doPrintf rt [] (a # as) = ''%!(EXTRA '' @ extraArgs (a # as) @ '')''"
| "doPrintf rt [c] as =
     (if c = CHR ''%'' then ''%!(NOVERB)'' @ doPrintf rt [] as else c # doPrintf rt [] as)"
| "doPrintf rt (c # verb # format) as =
     (if c \<noteq> CHR ''%'' then c # doPrintf rt (verb # format) as
      else if verb = CHR ''%'' then CHR ''%'' # doPrintf rt format as
      else (case as of
              [] \<Rightarrow> ''%!'' @ [verb] @ ''(MISSING)'' @ doPrintf rt format []
            | a # as' \<Rightarrow> printArg rt a verb @ doPrintf rt format as'))"

definition Sprintf :: "go \<Rightarrow> string \<Rightarrow> arg list \<Rightarrow> string" where
  "Sprintf rt format as = doPrintf rt format as"

definition Errorf :: "go \<Rightarrow> string \<Rightarrow> arg list \<Rightarrow> error" where
  "Errorf rt format as = errorString (Sprintf rt format as)"

definition Printf :: "go \<Rightarrow> string \<Rightarrow> arg list \<Rightarrow> world \<Rightarrow> world" where
  "Printf rt format as w = w\<lparr>stdout := stdout w @ [Sprintf rt format as]\<rparr>"

text \<open>\<open>fmt.Fprintf\<close> on a writer, the writer being the list of the writes it received.\<close>

definition Fprintf :: "go \<Rightarrow> string list \<Rightarrow> string \<Rightarrow> arg list \<Rightarrow> string list" where
  "Fprintf rt wr format as = wr @ [Sprintf rt format as]"

text \<open>
  \<open>fmt.Println\<close> of one operand: its default format and a newline. A nil pointer to a
  protocol buffer message prints as \<open><nil>\<close>.
\<close>

definition formatNote :: "go \<Rightarrow> Note option \<Rightarrow> string" where
  "formatNote rt note = (case note of None \<Rightarrow> ''<nil>'' | Some n \<Rightarrow> Note_String rt n)"

definition formatOccurrence :: "go \<Rightarrow> Occurrence option \<Rightarrow> string" where
  "formatOccurrence rt occ =
     (case occ of None \<Rightarrow> ''<nil>'' | Some v \<Rightarrow> Occurrence_String rt v)"

definition Println :: "string \<Rightarrow> world \<Rightarrow> world" where
  "Println s w = w\<lparr>stdout := stdout w @ [s @ [CHR 0x0A]]\<rparr>"

section \<open>The Container Analysis samples\<close>

text \<open>
  Each sample takes the Go runtime \<open>rt\<close> described above and the world before the
  call, and returns its Go results with the world after it. The \<open>ctx\<close> argument is
  handed to the client library as it is and has no part in what the samples compute.
\<close>

definition createNote ::
  "go \<Rightarrow> client \<Rightarrow> string \<Rightarrow> string \<Rightarrow> world \<Rightarrow> (Note option \<times> error option) \<times> world" where
  "createNote rt client noteID projectID w =
     (let projectName = Sprintf rt ''projects/%s'' [string_arg projectID];
          req = CreateNoteRequest projectName noteID
                  (Some \<lparr>Note_Name = [],
                         Note_Type = Some (Note_Vulnerability (Some Vulnerability))\<rparr>)
      in (CreateNote client req, invoke (Grafeas req) w))"

definition createOccurrence ::
  "go \<Rightarrow> client \<Rightarrow> string \<Rightarrow> string \<Rightarrow> string \<Rightarrow> string \<Rightarrow> world
     \<Rightarrow> (Occurrence option \<times> error option) \<times> world" where
  "createOccurrence rt client imageURL noteID occProjectID noteProjectID w =
     (let req = CreateOccurrenceRequest
                  (Sprintf rt ''projects/%s'' [string_arg occProjectID])
                  (Some \<lparr>Occurrence_Name = [],
                         Occurrence_Resource = Some \<lparr>Uri = imageURL\<rparr>,
                         NoteName = Sprintf rt ''projects/%s/notes/%s''
                                      [string_arg noteProjectID, string_arg noteID],
                         Occurrence_Details = Some (Occurrence_Vulnerability (Some Details))\<rparr>)
      in (CreateOccurrence client req, invoke (Grafeas req) w))"

definition updateNote ::
  "go \<Rightarrow> client \<Rightarrow> Note option \<Rightarrow> string \<Rightarrow> string \<Rightarrow> world
     \<Rightarrow> (Note option \<times> error option) \<times> world" where
  "updateNote rt client updated noteID projectID w =
     (let req = UpdateNoteRequest
                  (Sprintf rt ''projects/%s/notes/%s'' [string_arg projectID, string_arg noteID])
                  updated
      in (UpdateNote client req, invoke (Grafeas req) w))"

definition updateOccurrence ::
  "go \<Rightarrow> client \<Rightarrow> Occurrence option \<Rightarrow> string \<Rightarrow> world
     \<Rightarrow> (Occurrence option \<times> error option) \<times> world" where
  "updateOccurrence rt client updated occurrenceName w =
     (let req = UpdateOccurrenceRequest occurrenceName updated
      in (UpdateOccurrence client req, invoke (Grafeas req) w))"

definition deleteNote ::
  "go \<Rightarrow> client \<Rightarrow> string \<Rightarrow> string \<Rightarrow> world \<Rightarrow> error option \<times> world" where
  "deleteNote rt client noteID projectID w =
     (let req = DeleteNoteRequest
                  (Sprintf rt ''projects/%s/notes/%s'' [string_arg projectID, string_arg noteID])
      in (DeleteNote client req, invoke (Grafeas req) w))"

definition deleteOccurrence ::
  "go \<Rightarrow> client \<Rightarrow> string \<Rightarrow> world \<Rightarrow> error option \<times> world" where
  "deleteOccurrence rt client occurrenceName w =
     (let req = DeleteOccurrenceRequest occurrenceName
      in (DeleteOccurrence client req, invoke (Grafeas req) w))"

definition getNote ::
  "go \<Rightarrow> client \<Rightarrow> string \<Rightarrow> string \<Rightarrow> world \<Rightarrow> (Note option \<times> error option) \<times> world" where
  "getNote rt client noteID projectID w =
     (let req = GetNoteRequest
                  (Sprintf rt ''projects/%s/notes/%s'' [string_arg projectID, string_arg noteID]);
          (note, err) = GetNote client req;
          w1 = invoke (Grafeas req) w;
          w2 = Println (formatNote rt note) w1
      in ((note, err), w2))"

definition getOccurrence ::
  "go \<Rightarrow> client \<Rightarrow> string \<Rightarrow> world \<Rightarrow> (Occurrence option \<times> error option) \<times> world" where
  "getOccurrence rt client occurrenceName w =
     (let req = GetOccurrenceRequest occurrenceName;
          (occ, err) = GetOccurrence client req;
          w1 = invoke (Grafeas req) w;
          w2 = Println (formatOccurrence rt occ) w1
      in ((occ, err), w2))"

text \<open>
  The three listing loops. Each turn calls \<open>it.Next()\<close>; \<open>i\<close> counts the calls made so
  far. A cursor that never returns an error keeps the loop running: the result is then
  \<open>None\<close>.
\<close>

partial_function (option) getDiscoveryInfo_loop ::
  "go \<Rightarrow> OccurrenceIterator \<Rightarrow> nat \<Rightarrow> world \<Rightarrow> (error option \<times> world) option" where
  "getDiscoveryInfo_loop rt it i w =
     (case it i of (occ, err) \<Rightarrow>
        if err = Some Done then Some (None, w)
        else if err \<noteq> None then Some (err, w)
        else getDiscoveryInfo_loop rt it (i + 1) (Println (formatOccurrence rt occ) w))"

definition getDiscoveryInfo ::
  "go \<Rightarrow> client \<Rightarrow> string \<Rightarrow> string \<Rightarrow> world \<Rightarrow> (error option \<times> world) option" where
  \<open>getDiscoveryInfo rt client imageURL projectID w =
     (let req = ListOccurrencesRequest
                  (Sprintf rt ''projects/%s'' [string_arg projectID])
                  (Sprintf rt ''kind="DISCOVERY" AND resourceUrl=%q'' [string_arg imageURL]);
          it = ListOccurrences client req
      in getDiscoveryInfo_loop rt it 0 (invoke (Grafeas req) w))\<close>

partial_function (option) getOccurrencesForNote_loop ::
  "go \<Rightarrow> OccurrenceIterator \<Rightarrow> nat \<Rightarrow> int64 \<Rightarrow> world
     \<Rightarrow> ((int64 \<times> error option) \<times> world) option" where
  "getOccurrencesForNote_loop rt it i count w =
     (case it i of (occ, err) \<Rightarrow>
        if err = Some Done then Some ((count, None), w)
        else if err \<noteq> None then Some ((- 1, err), w)
        else getOccurrencesForNote_loop rt it (i + 1) (count + 1)
               (Println (formatOccurrence rt occ) w))"

definition getOccurrencesForNote ::
  "go \<Rightarrow> client \<Rightarrow> string \<Rightarrow> string \<Rightarrow> world \<Rightarrow> ((int64 \<times> error option) \<times> world) option" where
  "getOccurrencesForNote rt client noteID projectID w =
     (let req = ListNoteOccurrencesRequest
                  (Sprintf rt ''projects/%s/notes/%s'' [string_arg projectID, string_arg noteID]);
          it = ListNoteOccurrences client req
      in getOccurrencesForNote_loop rt it 0 0 (invoke (Grafeas req) w))"

partial_function (option) getOccurrencesForImage_loop ::
  "go \<Rightarrow> OccurrenceIterator \<Rightarrow> nat \<Rightarrow> int64 \<Rightarrow> world
     \<Rightarrow> ((int64 \<times> error option) \<times> world) option" where
  "getOccurrencesForImage_loop rt it i count w =
     (case it i of (occ, err) \<Rightarrow>
        if err = Some Done then Some ((count, None), w)
        else if err \<noteq> None then Some ((- 1, err), w)
        else getOccurrencesForImage_loop rt it (i + 1) (count + 1)
               (Println (formatOccurrence rt occ) w))"

definition getOccurrencesForImage ::
  "go \<Rightarrow> client \<Rightarrow> string \<Rightarrow> string \<Rightarrow> world \<Rightarrow> ((int64 \<times> error option) \<times> world) option" where
  "getOccurrencesForImage rt client imageURL projectID w =
     (let req = ListOccurrencesRequest
                  (Sprintf rt ''projects/%s'' [string_arg projectID])
                  (Sprintf rt ''resourceUrl=%q'' [string_arg imageURL]);
          it = ListOccurrences client req
      in getOccurrencesForImage_loop rt it 0 0 (invoke (Grafeas req) w))"

text \<open>
  The callback of \<open>occurrencePubsub\<close>, from \<open>mu.Lock()\<close> to \<open>mu.Unlock()\<close>, on the
  counter and the world.
\<close>

definition callback :: "go \<Rightarrow> Message \<Rightarrow> int64 \<times> world \<Rightarrow> int64 \<times> world" where
  "callback rt msg = (\<lambda>(count, w).
     (let count1 = count + 1;
          w1 = Printf rt ''Message %d: %q\<newline>'' [int_arg count1, string_arg (Data msg)] w;
          w2 = invoke (Message_Ack (ID msg)) w1
      in (count1, w2)))"

definition occurrencePubsub ::
  "go \<Rightarrow> pubsub \<Rightarrow> string \<Rightarrow> int64 \<Rightarrow> string \<Rightarrow> world \<Rightarrow> (int64 \<times> error option) \<times> world" where
  "occurrencePubsub rt ps subscriptionID timeout projectID w =
     (case NewClient ps projectID of
        Some err \<Rightarrow> ((- 1, Some err), w)
      | None \<Rightarrow>
          (let d = timeout * 1000000000;
               (msgs, err) = Receive ps projectID subscriptionID d;
               w1 = invoke (Subscription_Receive projectID subscriptionID d) w;
               (count, w2) = fold (callback rt) msgs (0, w1)
           in if err \<noteq> None then ((- 1, err), w2)
              else ((count, None), Println (Itoa (sint count)) w2)))"

definition createOccurrenceSubscription ::
  "go \<Rightarrow> pubsub \<Rightarrow> string \<Rightarrow> string \<Rightarrow> world \<Rightarrow> error option \<times> world" where
  "createOccurrenceSubscription rt ps subscriptionID projectID w =
     (case NewClient ps projectID of
        Some err \<Rightarrow> (Some err, w)
      | None \<Rightarrow>
          (let topicID = ''container-analysis-occurrences-v1beta1'';
               topic = \<lparr>Topic_project = projectID, Topic_ID = topicID\<rparr>;
               config = \<lparr>config_Topic = Some topic\<rparr>
           in (CreateSubscription ps projectID subscriptionID config,
               invoke (Client_CreateSubscription projectID subscriptionID config) w)))"

section \<open>The Healthcare sample\<close>

text \<open>The writer \<open>wr\<close> is the list of the writes it has received.\<close>

definition deleteDataset ::
  "go \<Rightarrow> healthcare \<Rightarrow> string list \<Rightarrow> string \<Rightarrow> string \<Rightarrow> string \<Rightarrow> world
     \<Rightarrow> (error option \<times> string list) \<times> world" where
  "deleteDataset rt hc wr projectID location datasetID w =
     (case NewService hc of
        Some err \<Rightarrow> ((Some (Errorf rt ''healthcare.New: %v'' [error_arg err]), wr), w)
      | None \<Rightarrow>
          (let name = Sprintf rt ''projects/%s/locations/%s/datasets/%s''
                        [string_arg projectID, string_arg location, string_arg datasetID];
               w1 = invoke (Datasets_Delete name) w
           in case Datasets_Delete_Do hc name of
                Some err \<Rightarrow> ((Some (Errorf rt ''Delete: %v'' [error_arg err]), wr), w1)
              | None \<Rightarrow>
                  ((None, Fprintf rt wr ''Deleted dataset: %q\<newline>'' [string_arg name]), w1)))"

section \<open>The names and filters as the specification writes them\<close>

definition spec_notePath :: "string \<Rightarrow> string \<Rightarrow> string" where
  "spec_notePath projectID noteID = ''projects/'' @ projectID @ ''/notes/'' @ noteID"

definition spec_datasetPath :: "string \<Rightarrow> string \<Rightarrow> string \<Rightarrow> string" where
  "spec_datasetPath projectID location datasetID =
     ''projects/'' @ projectID @ ''/locations/'' @ location @ ''/datasets/'' @ datasetID"

definition spec_discoveryFilter :: "string \<Rightarrow> string" where
  \<open>spec_discoveryFilter url = ''kind="DISCOVERY" AND resourceUrl="'' @ url @ ''"''\<close>

definition spec_imageFilter :: "string \<Rightarrow> string" where
  \<open>spec_imageFilter url = ''resourceUrl="'' @ url @ ''"''\<close>

definition spec_topicID :: string where
  "spec_topicID = ''container-analysis-occurrences-v1beta1''"

text \<open>A printable ASCII byte other than the double quote and the backslash.\<close>

definition plain :: "char \<Rightarrow> bool" where
  "plain c \<longleftrightarrow>
     0x20 \<le> (of_char c :: nat) \<and> (of_char c :: nat) \<le> 0x7E \<and> c \<noteq> CHR 0x22 \<and> c \<noteq> CHR 0x5C"

text \<open>
  \<open>yields it n\<close>: the first \<open>n\<close> calls of \<open>it.Next()\<close> return an element and no error.
  \<open>printed rt it i n\<close>: the lines \<open>fmt.Println\<close> writes for the elements number \<open>i\<close> up
  to \<open>n - 1\<close>.
\<close>

definition yields :: "OccurrenceIterator \<Rightarrow> nat \<Rightarrow> bool" where
  "yields it n = list_all (\<lambda>i. snd (it i) = None) [0..<n]"

definition printed :: "go \<Rightarrow> OccurrenceIterator \<Rightarrow> nat \<Rightarrow> nat \<Rightarrow> string list" where
  "printed rt it i n = map (\<lambda>j. formatOccurrence rt (fst (it j)) @ [CHR 0x0A]) [i..<n]"

text \<open>
  The results of a Go call, in the order of the function's result list:
  \<open>getDiscoveryInfo\<close> has the result type \<open>error\<close>, the two counting samples have
  \<open>(int, error)\<close>. \<open>None\<close> stands for a call that does not return.
\<close>

datatype result = int_result int64 | error_result "error option"

definition results_error :: "(error option \<times> world) option \<Rightarrow> result list option" where
  "results_error r = map_option (\<lambda>(err, w). [error_result err]) r"

definition results_int_error ::
  "((int64 \<times> error option) \<times> world) option \<Rightarrow> result list option" where
  "results_int_error r = map_option (\<lambda>((n, err), w). [int_result n, error_result err]) r"

text \<open>The lines the callback of \<open>occurrencePubsub\<close> prints, the counter being \<open>c\<close> before.\<close>

fun messageLines :: "go \<Rightarrow> int64 \<Rightarrow> Message list \<Rightarrow> string list" where
  "messageLines rt c [] = []"
| "messageLines rt c (m # ms) =
     (''Message '' @ Itoa (sint (c + 1)) @ '': '' @ Quote rt (Data m) @ [CHR 0x0A])
       # messageLines rt (c + 1) ms"

section \<open>A fake service for concrete runs\<close>

definition rt0 :: go where
  "rt0 = \<lparr>escapeMultibyte = (\<lambda>s. ([CHR 0x5C, CHR ''x'', CHR ''f'', CHR ''f''], 1)),
          Note_String = Note_Name, Occurrence_String = Occurrence_Name\<rparr>"

definition w0 :: world where
  "w0 = \<lparr>stdout = [], calls = []\<rparr>"

definition occurrence_named :: "string \<Rightarrow> Occurrence" where
  "occurrence_named name = \<lparr>Occurrence_Name = name, Occurrence_Resource = None, NoteName = [],
               Occurrence_Details = None\<rparr>"

definition unavailable :: error where
  "unavailable = RemoteError ''unavailable''"

text \<open>Two elements, then an error that stays; two elements, then the end of the stream.\<close>

definition cursor_fail :: OccurrenceIterator where
  "cursor_fail i = (if i = 0 then (Some (occurrence_named ''a''), None)
                    else if i = 1 then (Some (occurrence_named ''b''), None)
                    else (None, Some unavailable))"

definition cursor_ok :: OccurrenceIterator where
  "cursor_ok i = (if i = 0 then (Some (occurrence_named ''a''), None)
                  else if i = 1 then (Some (occurrence_named ''b''), None)
                  else (None, Some Done))"

definition cursor_empty :: OccurrenceIterator where
  "cursor_empty i = (None, Some Done)"

definition fake :: "OccurrenceIterator \<Rightarrow> client" where
  "fake it =
     \<lparr>CreateNote = (\<lambda>r. (None, Some unavailable)),
      CreateOccurrence = (\<lambda>r. (None, Some unavailable)),
      UpdateNote = (\<lambda>r. (None, Some unavailable)),
      UpdateOccurrence = (\<lambda>r. (None, Some unavailable)),
      DeleteNote = (\<lambda>r. Some unavailable),
      DeleteOccurrence = (\<lambda>r. Some unavailable),
      GetNote = (\<lambda>r. (None, Some unavailable)),
      GetOccurrence = (\<lambda>r. (None, Some unavailable)),
      ListOccurrences = (\<lambda>r. it),
      ListNoteOccurrences = (\<lambda>r. it)\<rparr>"

definition pubsub_ok :: "Message list \<Rightarrow> pubsub" where
  "pubsub_ok msgs =
     \<lparr>NewClient = (\<lambda>p. None), Receive = (\<lambda>p s d. (msgs, None)),
      CreateSubscription = (\<lambda>p s c. None)\<rparr>"

definition pubsub_broken :: pubsub where
  "pubsub_broken =
     \<lparr>NewClient = (\<lambda>p. None), Receive = (\<lambda>p s d. ([], Some unavailable)),
      CreateSubscription = (\<lambda>p s c. Some unavailable)\<rparr>"

definition healthcare_ok :: healthcare where
  "healthcare_ok = \<lparr>NewService = None, Datasets_Delete_Do = (\<lambda>name. None)\<rparr>"

definition healthcare_denied :: healthcare where
  "healthcare_denied = \<lparr>NewService = None, Datasets_Delete_Do = (\<lambda>name. Some unavailable)\<rparr>"

definition healthcare_unreachable :: healthcare where
  "healthcare_unreachable = \<lparr>NewService = Some unavailable, Datasets_Delete_Do = (\<lambda>name. None)\<rparr>"

definition healthcare_down :: healthcare where
  "healthcare_down =
     \<lparr>NewService = Some (RemoteError ''no credentials''), Datasets_Delete_Do = (\<lambda>name. None)\<rparr>"

section \<open>Formatting\<close>

lemma Sprintf_project: "Sprintf rt ''projects/%s'' [string_arg p] = ''projects/'' @ p"
  by (simp add: Sprintf_def fmtString_def)

lemma Sprintf_note:
  "Sprintf rt ''projects/%s/notes/%s'' [string_arg p, string_arg n] = ''projects/'' @ p @ ''/notes/'' @ n"
  by (simp add: Sprintf_def fmtString_def)

lemma Sprintf_dataset:
  "Sprintf rt ''projects/%s/locations/%s/datasets/%s'' [string_arg p, string_arg l, string_arg d]
     = ''projects/'' @ p @ ''/locations/'' @ l @ ''/datasets/'' @ d"
  by (simp add: Sprintf_def fmtString_def)

lemma Sprintf_discovery:
  \<open>Sprintf rt ''kind="DISCOVERY" AND resourceUrl=%q'' [string_arg u]
     = ''kind="DISCOVERY" AND resourceUrl='' @ Quote rt u\<close>
  by (simp add: Sprintf_def fmtString_def)

lemma Sprintf_resourceUrl:
  "Sprintf rt ''resourceUrl=%q'' [string_arg u] = ''resourceUrl='' @ Quote rt u"
  by (simp add: Sprintf_def fmtString_def)

lemma Sprintf_deleted:
  "Sprintf rt ''Deleted dataset: %q\<newline>'' [string_arg name]
     = ''Deleted dataset: '' @ Quote rt name @ [CHR 0x0A]"
  by (simp add: Sprintf_def fmtString_def)

lemma Sprintf_message:
  "Sprintf rt ''Message %d: %q\<newline>'' [int_arg c, string_arg d]
     = ''Message '' @ Itoa (sint c) @ '': '' @ Quote rt d @ [CHR 0x0A]"
  by (simp add: Sprintf_def fmtString_def)

lemma Errorf_Delete:
  "Errorf rt ''Delete: %v'' [error_arg e] = errorString (''Delete: '' @ Error e)"
  by (simp add: Errorf_def Sprintf_def fmtString_def)

lemma Errorf_New:
  "Errorf rt ''healthcare.New: %v'' [error_arg e] = errorString (''healthcare.New: '' @ Error e)"
  by (simp add: Errorf_def Sprintf_def fmtString_def)

lemma escapeASCII_plain: "plain c \<Longrightarrow> escapeASCII c = [c]"
  by (simp add: plain_def escapeASCII_def Let_def)

lemma appendQuoted_plain: "list_all plain s \<Longrightarrow> appendQuoted rt s = s"
  by (induction s) (auto simp: escapeASCII_plain plain_def)

lemma Quote_plain: "list_all plain s \<Longrightarrow> Quote rt s = CHR 0x22 # s @ [CHR 0x22]"
  by (simp add: Quote_def appendQuoted_plain)

lemma Quote_quote: "Quote rt [CHR 0x22] = [CHR 0x22, CHR 0x5C, CHR 0x22, CHR 0x22]"
  by (simp add: Quote_def escapeASCII_def)

lemma plain_image: "list_all plain ''gcr.io/p/img''"
  by (simp add: plain_def)

section \<open>The listing loops\<close>

lemma printed_step: "i < n \<Longrightarrow> printed rt it i n = (formatOccurrence rt (fst (it i)) @ [CHR 0x0A]) # printed rt it (Suc i) n"
  by (simp add: printed_def upt_conv_Cons)

lemma printed_empty: "printed rt it i i = []"
  by (simp add: printed_def)

lemma printed_length: "length (printed rt it 0 n) = n"
  by (simp add: printed_def)

lemma printed_nth:
  "j < n \<Longrightarrow> printed rt it 0 n ! j = formatOccurrence rt (fst (it j)) @ [CHR 0x0A]"
  by (simp add: printed_def)

lemma Println_printed:
  "(Println (formatOccurrence rt (fst (it i))) w)
     \<lparr>stdout := stdout (Println (formatOccurrence rt (fst (it i))) w) @ printed rt it (Suc i) (Suc i + k)\<rparr>
   = w\<lparr>stdout := stdout w @ printed rt it i (i + Suc k)\<rparr>"
  by (simp add: Println_def printed_step [of i "Suc (i + k)"])

lemma yields_iff: "yields it n \<longleftrightarrow> (\<forall>j<n. snd (it (0 + j)) = None)"
  by (auto simp: yields_def list_all_iff)

lemma sint_count:
  assumes "n < 2 ^ 63"
  shows "sint (of_nat n :: int64) = int n"
proof -
  have "sint (of_nat n :: int64) = sint (word_of_int (int n) :: int64)"
    by simp
  also have "\<dots> = signed_take_bit 63 (int n)"
    by (simp only: sint_sbintrunc') simp
  also have "\<dots> = int n"
  proof (rule signed_take_bit_int_eq_self)
    show "- (2 ^ 63) \<le> int n" by (rule order_trans [of _ 0]) simp_all
    from assms have "int n < int (2 ^ 63)" by (simp only: of_nat_less_iff)
    then show "int n < 2 ^ 63" by simp
  qed
  finally show ?thesis .
qed

lemma ForNote_loop_next:
  "it i = (occ, None) \<Longrightarrow>
   getOccurrencesForNote_loop rt it i c w
     = getOccurrencesForNote_loop rt it (Suc i) (c + 1) (Println (formatOccurrence rt occ) w)"
  by (subst getOccurrencesForNote_loop.simps) simp

lemma ForNote_loop_stop:
  "it i = (occ, Some Done) \<Longrightarrow> getOccurrencesForNote_loop rt it i c w = Some ((c, None), w)"
  by (subst getOccurrencesForNote_loop.simps) simp

lemma ForNote_loop_fail:
  "it i = (occ, Some e) \<Longrightarrow> e \<noteq> Done \<Longrightarrow>
   getOccurrencesForNote_loop rt it i c w = Some ((- 1, Some e), w)"
  by (subst getOccurrencesForNote_loop.simps) simp

lemma ForNote_loop_error:
  "\<forall>j<k. snd (it (i + j)) = None \<Longrightarrow> snd (it (i + k)) = Some e \<Longrightarrow> e \<noteq> Done \<Longrightarrow>
   getOccurrencesForNote_loop rt it i c w
     = Some ((- 1, Some e), w\<lparr>stdout := stdout w @ printed rt it i (i + k)\<rparr>)"
proof (induction k arbitrary: i c w)
  case 0
  then have "it i = (fst (it i), Some e)" by (simp add: prod_eq_iff)
  then show ?case using "0.prems"(3)
    by (simp add: ForNote_loop_fail printed_empty)
next
  case (Suc k)
  from Suc.prems(1) have "snd (it (i + 0)) = None" by blast
  then have here: "it i = (fst (it i), None)" by (simp add: prod_eq_iff)
  have rest: "\<forall>j<k. snd (it (Suc i + j)) = None"
    using Suc.prems(1) by (metis Suc_less_eq add_Suc_shift)
  have stop: "snd (it (Suc i + k)) = Some e" using Suc.prems(2) by simp
  show ?case
    by (simp only: ForNote_loop_next [where it = it and i = i, OF here] Suc.IH [OF rest stop Suc.prems(3)] Println_printed)
qed

lemma ForNote_loop_Done:
  "\<forall>j<k. snd (it (i + j)) = None \<Longrightarrow> snd (it (i + k)) = Some Done \<Longrightarrow>
   getOccurrencesForNote_loop rt it i c w
     = Some ((c + of_nat k, None), w\<lparr>stdout := stdout w @ printed rt it i (i + k)\<rparr>)"
proof (induction k arbitrary: i c w)
  case 0
  then have "it i = (fst (it i), Some Done)" by (simp add: prod_eq_iff)
  then show ?case
    by (simp add: ForNote_loop_stop printed_empty)
next
  case (Suc k)
  from Suc.prems(1) have "snd (it (i + 0)) = None" by blast
  then have here: "it i = (fst (it i), None)" by (simp add: prod_eq_iff)
  have rest: "\<forall>j<k. snd (it (Suc i + j)) = None"
    using Suc.prems(1) by (metis Suc_less_eq add_Suc_shift)
  have stop: "snd (it (Suc i + k)) = Some Done" using Suc.prems(2) by simp
  have count: "c + 1 + of_nat k = c + of_nat (Suc k)" by simp
  show ?case
    by (simp only: ForNote_loop_next [where it = it and i = i, OF here] Suc.IH [OF rest stop] Println_printed count)
qed

lemma ForNote_loop_calls:
  assumes "getOccurrencesForNote_loop rt it i c w = Some res"
  shows "calls (snd res) = calls w"
proof (rule getOccurrencesForNote_loop.raw_induct
         [where P = "\<lambda>rt it i c w res. calls (snd res) = calls w", OF _ assms])
  fix loop :: "go \<Rightarrow> OccurrenceIterator \<Rightarrow> nat \<Rightarrow> int64 \<Rightarrow> world
                \<Rightarrow> ((int64 \<times> error option) \<times> world) option"
    and rt :: go and it :: OccurrenceIterator and i :: nat and count :: int64 and w :: world
    and res :: "(int64 \<times> error option) \<times> world"
  assume IH: "\<And>rt it i count w res. loop rt it i count w = Some res \<Longrightarrow> calls (snd res) = calls w"
    and step: "(case it i of
      (occ, err) \<Rightarrow>
        if err = Some Done then Some ((count, None), w)
        else if err \<noteq> None then Some ((- 1, err), w)
             else loop rt it (i + 1) (count + 1)
                   (Println (formatOccurrence rt occ) w)) = Some (res :: (int64 \<times> error option) \<times> world)"
  show "calls (snd res) = calls w"
  proof (cases "it i")
    case (Pair occ err)
    with step IH [of rt it "i + 1" "count + 1" "Println (formatOccurrence rt occ) w" res]
    show ?thesis
      by (auto simp: Println_def split: if_splits)
  qed
qed

lemma ForImage_loop_next:
  "it i = (occ, None) \<Longrightarrow>
   getOccurrencesForImage_loop rt it i c w
     = getOccurrencesForImage_loop rt it (Suc i) (c + 1) (Println (formatOccurrence rt occ) w)"
  by (subst getOccurrencesForImage_loop.simps) simp

lemma ForImage_loop_stop:
  "it i = (occ, Some Done) \<Longrightarrow> getOccurrencesForImage_loop rt it i c w = Some ((c, None), w)"
  by (subst getOccurrencesForImage_loop.simps) simp

lemma ForImage_loop_fail:
  "it i = (occ, Some e) \<Longrightarrow> e \<noteq> Done \<Longrightarrow>
   getOccurrencesForImage_loop rt it i c w = Some ((- 1, Some e), w)"
  by (subst getOccurrencesForImage_loop.simps) simp

lemma ForImage_loop_error:
  "\<forall>j<k. snd (it (i + j)) = None \<Longrightarrow> snd (it (i + k)) = Some e \<Longrightarrow> e \<noteq> Done \<Longrightarrow>
   getOccurrencesForImage_loop rt it i c w
     = Some ((- 1, Some e), w\<lparr>stdout := stdout w @ printed rt it i (i + k)\<rparr>)"
proof (induction k arbitrary: i c w)
  case 0
  then have "it i = (fst (it i), Some e)" by (simp add: prod_eq_iff)
  then show ?case using "0.prems"(3)
    by (simp add: ForImage_loop_fail printed_empty)
next
  case (Suc k)
  from Suc.prems(1) have "snd (it (i + 0)) = None" by blast
  then have here: "it i = (fst (it i), None)" by (simp add: prod_eq_iff)
  have rest: "\<forall>j<k. snd (it (Suc i + j)) = None"
    using Suc.prems(1) by (metis Suc_less_eq add_Suc_shift)
  have stop: "snd (it (Suc i + k)) = Some e" using Suc.prems(2) by simp
  show ?case
    by (simp only: ForImage_loop_next [where it = it and i = i, OF here] Suc.IH [OF rest stop Suc.prems(3)] Println_printed)
qed

lemma ForImage_loop_Done:
  "\<forall>j<k. snd (it (i + j)) = None \<Longrightarrow> snd (it (i + k)) = Some Done \<Longrightarrow>
   getOccurrencesForImage_loop rt it i c w
     = Some ((c + of_nat k, None), w\<lparr>stdout := stdout w @ printed rt it i (i + k)\<rparr>)"
proof (induction k arbitrary: i c w)
  case 0
  then have "it i = (fst (it i), Some Done)" by (simp add: prod_eq_iff)
  then show ?case
    by (simp add: ForImage_loop_stop printed_empty)
next
  case (Suc k)
  from Suc.prems(1) have "snd (it (i + 0)) = None" by blast
  then have here: "it i = (fst (it i), None)" by (simp add: prod_eq_iff)
  have rest: "\<forall>j<k. snd (it (Suc i + j)) = None"
    using Suc.prems(1) by (metis Suc_less_eq add_Suc_shift)
  have stop: "snd (it (Suc i + k)) = Some Done" using Suc.prems(2) by simp
  have count: "c + 1 + of_nat k = c + of_nat (Suc k)" by simp
  show ?case
    by (simp only: ForImage_loop_next [where it = it and i = i, OF here] Suc.IH [OF rest stop] Println_printed count)
qed

lemma ForImage_loop_calls:
  assumes "getOccurrencesForImage_loop rt it i c w = Some res"
  shows "calls (snd res) = calls w"
proof (rule getOccurrencesForImage_loop.raw_induct
         [where P = "\<lambda>rt it i c w res. calls (snd res) = calls w", OF _ assms])
  fix loop :: "go \<Rightarrow> OccurrenceIterator \<Rightarrow> nat \<Rightarrow> int64 \<Rightarrow> world
                \<Rightarrow> ((int64 \<times> error option) \<times> world) option"
    and rt :: go and it :: OccurrenceIterator and i :: nat and count :: int64 and w :: world
    and res :: "(int64 \<times> error option) \<times> world"
  assume IH: "\<And>rt it i count w res. loop rt it i count w = Some res \<Longrightarrow> calls (snd res) = calls w"
    and step: "(case it i of
      (occ, err) \<Rightarrow>
        if err = Some Done then Some ((count, None), w)
        else if err \<noteq> None then Some ((- 1, err), w)
             else loop rt it (i + 1) (count + 1)
                   (Println (formatOccurrence rt occ) w)) = Some res"
  show "calls (snd res) = calls w"
  proof (cases "it i")
    case (Pair occ err)
    with step IH [of rt it "i + 1" "count + 1" "Println (formatOccurrence rt occ) w" res]
    show ?thesis
      by (auto simp: Println_def split: if_splits)
  qed
qed

lemma Discovery_loop_next:
  "it i = (occ, None) \<Longrightarrow>
   getDiscoveryInfo_loop rt it i w
     = getDiscoveryInfo_loop rt it (Suc i) (Println (formatOccurrence rt occ) w)"
  by (subst getDiscoveryInfo_loop.simps) simp

lemma Discovery_loop_stop:
  "it i = (occ, Some Done) \<Longrightarrow> getDiscoveryInfo_loop rt it i w = Some (None, w)"
  by (subst getDiscoveryInfo_loop.simps) simp

lemma Discovery_loop_fail:
  "it i = (occ, Some e) \<Longrightarrow> e \<noteq> Done \<Longrightarrow> getDiscoveryInfo_loop rt it i w = Some (Some e, w)"
  by (subst getDiscoveryInfo_loop.simps) simp

lemma Discovery_loop_error:
  "\<forall>j<k. snd (it (i + j)) = None \<Longrightarrow> snd (it (i + k)) = Some e \<Longrightarrow> e \<noteq> Done \<Longrightarrow>
   getDiscoveryInfo_loop rt it i w
     = Some (Some e, w\<lparr>stdout := stdout w @ printed rt it i (i + k)\<rparr>)"
proof (induction k arbitrary: i w)
  case 0
  then have "it i = (fst (it i), Some e)" by (simp add: prod_eq_iff)
  then show ?case using "0.prems"(3)
    by (simp add: Discovery_loop_fail printed_empty)
next
  case (Suc k)
  from Suc.prems(1) have "snd (it (i + 0)) = None" by blast
  then have here: "it i = (fst (it i), None)" by (simp add: prod_eq_iff)
  have rest: "\<forall>j<k. snd (it (Suc i + j)) = None"
    using Suc.prems(1) by (metis Suc_less_eq add_Suc_shift)
  have stop: "snd (it (Suc i + k)) = Some e" using Suc.prems(2) by simp
  show ?case
    by (simp only: Discovery_loop_next [where it = it and i = i, OF here]
          Suc.IH [OF rest stop Suc.prems(3)] Println_printed)
qed

lemma Discovery_loop_Done:
  "\<forall>j<k. snd (it (i + j)) = None \<Longrightarrow> snd (it (i + k)) = Some Done \<Longrightarrow>
   getDiscoveryInfo_loop rt it i w
     = Some (None, w\<lparr>stdout := stdout w @ printed rt it i (i + k)\<rparr>)"
proof (induction k arbitrary: i w)
  case 0
  then have "it i = (fst (it i), Some Done)" by (simp add: prod_eq_iff)
  then show ?case
    by (simp add: Discovery_loop_stop printed_empty)
next
  case (Suc k)
  from Suc.prems(1) have "snd (it (i + 0)) = None" by blast
  then have here: "it i = (fst (it i), None)" by (simp add: prod_eq_iff)
  have rest: "\<forall>j<k. snd (it (Suc i + j)) = None"
    using Suc.prems(1) by (metis Suc_less_eq add_Suc_shift)
  have stop: "snd (it (Suc i + k)) = Some Done" using Suc.prems(2) by simp
  show ?case
    by (simp only: Discovery_loop_next [where it = it and i = i, OF here]
          Suc.IH [OF rest stop] Println_printed)
qed

lemma Discovery_loop_calls:
  assumes "getDiscoveryInfo_loop rt it i w = Some res"
  shows "calls (snd res) = calls w"
proof (rule getDiscoveryInfo_loop.raw_induct
         [where P = "\<lambda>rt it i w res. calls (snd res) = calls w", OF _ assms])
  fix loop :: "go \<Rightarrow> OccurrenceIterator \<Rightarrow> nat \<Rightarrow> world \<Rightarrow> (error option \<times> world) option"
    and rt :: go and it :: OccurrenceIterator and i :: nat and w :: world
    and res :: "error option \<times> world"
  assume IH: "\<And>rt it i w res. loop rt it i w = Some res \<Longrightarrow> calls (snd res) = calls w"
    and step: "(case it i of
      (occ, err) \<Rightarrow>
        if err = Some Done then Some (None, w)
        else if err \<noteq> None then Some (err, w)
             else loop rt it (i + 1) (Println (formatOccurrence rt occ) w)) = Some res"
  show "calls (snd res) = calls w"
  proof (cases "it i")
    case (Pair occ err)
    with step IH [of rt it "i + 1" "Println (formatOccurrence rt occ) w" res]
    show ?thesis
      by (auto simp: Println_def split: if_splits)
  qed
qed

lemma getOccurrencesForNote_unfold:
  "getOccurrencesForNote rt client noteID projectID w
     = getOccurrencesForNote_loop rt
         (ListNoteOccurrences client (ListNoteOccurrencesRequest (spec_notePath projectID noteID)))
         0 0 (invoke (Grafeas (ListNoteOccurrencesRequest (spec_notePath projectID noteID))) w)"
  by (simp add: getOccurrencesForNote_def Sprintf_note spec_notePath_def Let_def)

lemma getOccurrencesForImage_unfold:
  "getOccurrencesForImage rt client imageURL projectID w
     = getOccurrencesForImage_loop rt
         (ListOccurrences client
            (ListOccurrencesRequest (''projects/'' @ projectID) (''resourceUrl='' @ Quote rt imageURL)))
         0 0
         (invoke (Grafeas (ListOccurrencesRequest (''projects/'' @ projectID)
                             (''resourceUrl='' @ Quote rt imageURL))) w)"
  by (simp add: getOccurrencesForImage_def Sprintf_project Sprintf_resourceUrl Let_def)

lemma getDiscoveryInfo_unfold:
  \<open>getDiscoveryInfo rt client imageURL projectID w
     = getDiscoveryInfo_loop rt
         (ListOccurrences client
            (ListOccurrencesRequest (''projects/'' @ projectID)
               (''kind="DISCOVERY" AND resourceUrl='' @ Quote rt imageURL)))
         0
         (invoke (Grafeas (ListOccurrencesRequest (''projects/'' @ projectID)
                             (''kind="DISCOVERY" AND resourceUrl='' @ Quote rt imageURL))) w)\<close>
  by (simp only: getDiscoveryInfo_def Sprintf_project Sprintf_discovery Let_def)

section \<open>The callback of the subscription\<close>

lemma fold_callback:
  "fold (callback rt) msgs (c, w)
     = (c + of_nat (length msgs),
        w\<lparr>stdout := stdout w @ messageLines rt c msgs,
          calls := calls w @ map (\<lambda>m. Message_Ack (ID m)) msgs\<rparr>)"
proof (induction msgs arbitrary: c w)
  case Nil
  show ?case by simp
next
  case (Cons m msgs)
  have "callback rt m (c, w)
          = (c + 1,
             w\<lparr>stdout := stdout w @ [''Message '' @ Itoa (sint (c + 1)) @ '': ''
                                        @ Quote rt (Data m) @ [CHR 0x0A]],
               calls := calls w @ [Message_Ack (ID m)]\<rparr>)"
    by (simp add: callback_def Printf_def invoke_def Sprintf_message Let_def)
  then show ?case
    by (simp add: Cons.IH add.assoc)
qed

lemma messageLines_length: "length (messageLines rt c msgs) = length msgs"
  by (induction msgs arbitrary: c) simp_all

lemma messageLines_nth:
  "i < length msgs \<Longrightarrow>
   messageLines rt c msgs ! i
     = ''Message '' @ Itoa (sint (c + of_nat (Suc i))) @ '': '' @ Quote rt (Data (msgs ! i))
         @ [CHR 0x0A]"
proof (induction msgs arbitrary: c i)
  case Nil
  then show ?case by simp
next
  case (Cons m msgs)
  show ?case
  proof (cases i)
    case 0
    then show ?thesis by simp
  next
    case (Suc j)
    with Cons.prems have "j < length msgs" by simp
    from Cons.IH [OF this, of "c + 1"] Suc show ?thesis
      by (simp add: add.assoc)
  qed
qed

section \<open>Runs against the fake service\<close>

lemma yields_cursor_ok: "yields cursor_ok 2"
  by (simp add: yields_def cursor_ok_def numeral_2_eq_2)

lemma yields_cursor_fail: "yields cursor_fail 2"
  by (simp add: yields_def cursor_fail_def numeral_2_eq_2)

lemma printed_cursor_ok: "printed rt0 cursor_ok 0 2 = [''a\<newline>'', ''b\<newline>'']"
  by (simp add: printed_def cursor_ok_def numeral_2_eq_2 formatOccurrence_def rt0_def
        occurrence_named_def)

lemma printed_cursor_fail: "printed rt0 cursor_fail 0 2 = [''a\<newline>'', ''b\<newline>'']"
  by (simp add: printed_def cursor_fail_def numeral_2_eq_2 formatOccurrence_def rt0_def
        occurrence_named_def)

lemma run_ForNote_ok:
  "getOccurrencesForNote rt0 (fake cursor_ok) ''n'' ''p'' w0
     = Some ((2, None),
             \<lparr>stdout = [''a\<newline>'', ''b\<newline>''],
              calls = [Grafeas (ListNoteOccurrencesRequest ''projects/p/notes/n'')]\<rparr>)"
proof -
  have it: "ListNoteOccurrences (fake cursor_ok)
              (ListNoteOccurrencesRequest (spec_notePath ''p'' ''n'')) = cursor_ok"
    by (simp add: fake_def)
  have a: "\<forall>j<2. snd (cursor_ok (0 + j)) = None"
    using yields_cursor_ok by (simp only: yields_iff)
  have b: "snd (cursor_ok (0 + 2)) = Some Done"
    by (simp add: cursor_ok_def)
  have p: "printed rt0 cursor_ok 0 (0 + 2) = [''a\<newline>'', ''b\<newline>'']"
    by (simp only: add.left_neutral printed_cursor_ok)
  show ?thesis
    by (simp only: getOccurrencesForNote_unfold it ForNote_loop_Done [OF a b] p)
       (simp add: invoke_def w0_def spec_notePath_def)
qed

lemma run_ForImage_ok:
  \<open>getOccurrencesForImage rt0 (fake cursor_ok) ''gcr.io/p/img'' ''p'' w0
     = Some ((2, None),
             \<lparr>stdout = [''a\<newline>'', ''b\<newline>''],
              calls = [Grafeas (ListOccurrencesRequest ''projects/p''
                         ''resourceUrl="gcr.io/p/img"'')]\<rparr>)\<close>
proof -
  have it: "ListOccurrences (fake cursor_ok) r = cursor_ok" for r
    by (simp add: fake_def)
  have a: "\<forall>j<2. snd (cursor_ok (0 + j)) = None"
    using yields_cursor_ok by (simp only: yields_iff)
  have b: "snd (cursor_ok (0 + 2)) = Some Done"
    by (simp add: cursor_ok_def)
  have p: "printed rt0 cursor_ok 0 (0 + 2) = [''a\<newline>'', ''b\<newline>'']"
    by (simp only: add.left_neutral printed_cursor_ok)
  show ?thesis
    by (simp only: getOccurrencesForImage_unfold it ForImage_loop_Done [OF a b] p
          Quote_plain [OF plain_image])
       (simp add: invoke_def w0_def)
qed

lemma run_Discovery_ok:
  \<open>getDiscoveryInfo rt0 (fake cursor_ok) ''gcr.io/p/img'' ''p'' w0
     = Some (None,
             \<lparr>stdout = [''a\<newline>'', ''b\<newline>''],
              calls = [Grafeas (ListOccurrencesRequest ''projects/p''
                         ''kind="DISCOVERY" AND resourceUrl="gcr.io/p/img"'')]\<rparr>)\<close>
proof -
  have it: "ListOccurrences (fake cursor_ok) r = cursor_ok" for r
    by (simp add: fake_def)
  have a: "\<forall>j<2. snd (cursor_ok (0 + j)) = None"
    using yields_cursor_ok by (simp only: yields_iff)
  have b: "snd (cursor_ok (0 + 2)) = Some Done"
    by (simp add: cursor_ok_def)
  have p: "printed rt0 cursor_ok 0 (0 + 2) = [''a\<newline>'', ''b\<newline>'']"
    by (simp only: add.left_neutral printed_cursor_ok)
  show ?thesis
    by (simp only: getDiscoveryInfo_unfold it Discovery_loop_Done [OF a b] p
          Quote_plain [OF plain_image])
       (simp add: invoke_def w0_def)
qed

lemma run_Discovery_fail:
  \<open>getDiscoveryInfo rt0 (fake cursor_fail) ''gcr.io/p/img'' ''p'' w0
     = Some (Some unavailable,
             \<lparr>stdout = [''a\<newline>'', ''b\<newline>''],
              calls = [Grafeas (ListOccurrencesRequest ''projects/p''
                         ''kind="DISCOVERY" AND resourceUrl="gcr.io/p/img"'')]\<rparr>)\<close>
proof -
  have it: "ListOccurrences (fake cursor_fail) r = cursor_fail" for r
    by (simp add: fake_def)
  have a: "\<forall>j<2. snd (cursor_fail (0 + j)) = None"
    using yields_cursor_fail by (simp only: yields_iff)
  have b: "snd (cursor_fail (0 + 2)) = Some unavailable"
    by (simp add: cursor_fail_def)
  have c: "unavailable \<noteq> Done"
    by (simp add: unavailable_def)
  have p: "printed rt0 cursor_fail 0 (0 + 2) = [''a\<newline>'', ''b\<newline>'']"
    by (simp only: add.left_neutral printed_cursor_fail)
  show ?thesis
    by (simp only: getDiscoveryInfo_unfold it Discovery_loop_error [OF a b c] p
          Quote_plain [OF plain_image])
       (simp add: invoke_def w0_def)
qed

lemma run_Discovery_quote:
  \<open>getDiscoveryInfo rt0 (fake cursor_empty) [CHR 0x22] ''p'' w0
     = Some (None,
             \<lparr>stdout = [],
              calls = [Grafeas (ListOccurrencesRequest ''projects/p''
                         (''kind="DISCOVERY" AND resourceUrl=''
                            @ [CHR 0x22, CHR 0x5C, CHR 0x22, CHR 0x22]))]\<rparr>)\<close>
proof -
  have stop: "getDiscoveryInfo_loop rt0 (ListOccurrences (fake cursor_empty) r) 0 w'
                = Some (None, w')" for r w'
    by (rule Discovery_loop_stop [where occ = None]) (simp add: fake_def cursor_empty_def)
  show ?thesis
    by (simp only: getDiscoveryInfo_unfold stop Quote_quote)
       (simp add: invoke_def w0_def)
qed

lemma run_ForImage_quote:
  \<open>getOccurrencesForImage rt0 (fake cursor_empty) [CHR 0x22] ''p'' w0
     = Some ((0, None),
             \<lparr>stdout = [],
              calls = [Grafeas (ListOccurrencesRequest ''projects/p''
                         (''resourceUrl='' @ [CHR 0x22, CHR 0x5C, CHR 0x22, CHR 0x22]))]\<rparr>)\<close>
proof -
  have stop: "getOccurrencesForImage_loop rt0 (ListOccurrences (fake cursor_empty) r) 0 c w'
                = Some ((c, None), w')" for r c w'
    by (rule ForImage_loop_stop [where occ = None]) (simp add: fake_def cursor_empty_def)
  show ?thesis
    by (simp only: getOccurrencesForImage_unfold stop Quote_quote)
       (simp add: invoke_def w0_def)
qed

section \<open>The claims\<close>

text \<open>
  C1, as the code has it. When the cursor returns an error other than the
  end-of-stream value after \<open>k\<close> elements, each listing sample stops there: it has
  printed the \<open>k\<close> elements, one line each, and returns at once.
  \<open>getOccurrencesForNote\<close> and \<open>getOccurrencesForImage\<close> return the count \<open>-1\<close> and the
  error of the cursor; \<open>getDiscoveryInfo\<close>, whose only result is an error, returns the
  error of the cursor.
\<close>

theorem listing_error_midstream:
  assumes "yields it k" and "snd (it k) = Some e" and "e \<noteq> Done"
  shows
    \<open>(ListNoteOccurrences client (ListNoteOccurrencesRequest (spec_notePath projectID noteID)) = it
        \<longrightarrow> getOccurrencesForNote rt client noteID projectID w
          = Some ((- 1, Some e),
                  w\<lparr>stdout := stdout w @ printed rt it 0 k,
                    calls := calls w @
                      [Grafeas (ListNoteOccurrencesRequest (spec_notePath projectID noteID))]\<rparr>))
     \<and> (ListOccurrences client
           (ListOccurrencesRequest (''projects/'' @ projectID)
              (''resourceUrl='' @ Quote rt imageURL)) = it
        \<longrightarrow> getOccurrencesForImage rt client imageURL projectID w
          = Some ((- 1, Some e),
                  w\<lparr>stdout := stdout w @ printed rt it 0 k,
                    calls := calls w @
                      [Grafeas (ListOccurrencesRequest (''projects/'' @ projectID)
                                  (''resourceUrl='' @ Quote rt imageURL))]\<rparr>))
     \<and> (ListOccurrences client
           (ListOccurrencesRequest (''projects/'' @ projectID)
              (''kind="DISCOVERY" AND resourceUrl='' @ Quote rt imageURL)) = it
        \<longrightarrow> getDiscoveryInfo rt client imageURL projectID w
          = Some (Some e,
                  w\<lparr>stdout := stdout w @ printed rt it 0 k,
                    calls := calls w @
                      [Grafeas (ListOccurrencesRequest (''projects/'' @ projectID)
                                  (''kind="DISCOVERY" AND resourceUrl='' @ Quote rt imageURL))]\<rparr>))
     \<and> length (printed rt it 0 k) = k
     \<and> (\<forall>j<k. printed rt it 0 k ! j = formatOccurrence rt (fst (it j)) @ [CHR 0x0A])\<close>
proof -
  have a: "\<forall>j<k. snd (it (0 + j)) = None"
    using assms(1) by (simp only: yields_iff)
  have b: "snd (it (0 + k)) = Some e"
    using assms(2) by simp
  note c = assms(3)
  have n: "getOccurrencesForNote_loop rt it 0 0 w'
             = Some ((- 1, Some e), w'\<lparr>stdout := stdout w' @ printed rt it 0 k\<rparr>)" for w'
    using ForNote_loop_error [OF a b c, of rt 0 w'] by simp
  have i: "getOccurrencesForImage_loop rt it 0 0 w'
             = Some ((- 1, Some e), w'\<lparr>stdout := stdout w' @ printed rt it 0 k\<rparr>)" for w'
    using ForImage_loop_error [OF a b c, of rt 0 w'] by simp
  have d: "getDiscoveryInfo_loop rt it 0 w'
             = Some (Some e, w'\<lparr>stdout := stdout w' @ printed rt it 0 k\<rparr>)" for w'
    using Discovery_loop_error [OF a b c, of rt w'] by simp
  show ?thesis
    by (simp only: getOccurrencesForNote_unfold getOccurrencesForImage_unfold
          getDiscoveryInfo_unfold)
       (simp add: n i d invoke_def printed_length printed_nth)
qed

theorem listing_error_midstream_witness:
  \<open>getOccurrencesForNote rt0 (fake cursor_fail) ''n'' ''p'' w0
     = Some ((- 1, Some unavailable),
             \<lparr>stdout = [''a\<newline>'', ''b\<newline>''],
              calls = [Grafeas (ListNoteOccurrencesRequest ''projects/p/notes/n'')]\<rparr>)
   \<and> getOccurrencesForImage rt0 (fake cursor_fail) ''gcr.io/p/img'' ''p'' w0
     = Some ((- 1, Some unavailable),
             \<lparr>stdout = [''a\<newline>'', ''b\<newline>''],
              calls = [Grafeas (ListOccurrencesRequest ''projects/p''
                         ''resourceUrl="gcr.io/p/img"'')]\<rparr>)
   \<and> getDiscoveryInfo rt0 (fake cursor_fail) ''gcr.io/p/img'' ''p'' w0
     = Some (Some unavailable,
             \<lparr>stdout = [''a\<newline>'', ''b\<newline>''],
              calls = [Grafeas (ListOccurrencesRequest ''projects/p''
                         ''kind="DISCOVERY" AND resourceUrl="gcr.io/p/img"'')]\<rparr>)\<close>
proof -
  have stops: "snd (cursor_fail 2) = Some unavailable"
    by (simp add: cursor_fail_def)
  have other: "unavailable \<noteq> Done"
    by (simp add: unavailable_def)
  have cursor: "ListNoteOccurrences (fake cursor_fail) r = cursor_fail"
    "ListOccurrences (fake cursor_fail) r = cursor_fail" for r
    by (simp_all add: fake_def)
  from listing_error_midstream [OF yields_cursor_fail stops other,
         of "fake cursor_fail" "''p''" "''n''" rt0 w0 "''gcr.io/p/img''"]
  show ?thesis
    by (simp add: cursor printed_cursor_fail Quote_plain [OF plain_image] w0_def
          spec_notePath_def)
qed

text \<open>
  C1 as stated fails for \<open>getDiscoveryInfo\<close>: on a cursor that fails after two
  elements it returns the error alone; no count, and so no \<open>-1\<close>, is among its results.
\<close>

theorem getDiscoveryInfo_sentinel_counterexample:
  "results_error (getDiscoveryInfo rt0 (fake cursor_fail) ''gcr.io/p/img'' ''p'' w0)
     = Some [error_result (Some unavailable)]
   \<and> results_error (getDiscoveryInfo rt0 (fake cursor_fail) ''gcr.io/p/img'' ''p'' w0)
     \<noteq> Some [int_result (- 1), error_result (Some unavailable)]"
  by (simp add: run_Discovery_fail results_error_def)

text \<open>
  C2, as the code has it. On a cursor that returns \<open>n\<close> elements and then the
  end-of-stream value, each listing sample prints one line for each element, in the
  order of the cursor, and returns no error. \<open>getOccurrencesForNote\<close> and
  \<open>getOccurrencesForImage\<close> return the count \<open>n\<close> with it (as a Go \<open>int\<close>: the number
  \<open>n\<close> itself as long as \<open>n\<close> is below \<open>2^63\<close>); \<open>getDiscoveryInfo\<close>, whose only result
  is an error, returns nil.
\<close>

theorem listing_to_end_of_stream:
  assumes "yields it n" and "snd (it n) = Some Done"
  shows
    \<open>(ListNoteOccurrences client (ListNoteOccurrencesRequest (spec_notePath projectID noteID)) = it
        \<longrightarrow> getOccurrencesForNote rt client noteID projectID w
          = Some ((of_nat n, None),
                  w\<lparr>stdout := stdout w @ printed rt it 0 n,
                    calls := calls w @
                      [Grafeas (ListNoteOccurrencesRequest (spec_notePath projectID noteID))]\<rparr>))
     \<and> (ListOccurrences client
           (ListOccurrencesRequest (''projects/'' @ projectID)
              (''resourceUrl='' @ Quote rt imageURL)) = it
        \<longrightarrow> getOccurrencesForImage rt client imageURL projectID w
          = Some ((of_nat n, None),
                  w\<lparr>stdout := stdout w @ printed rt it 0 n,
                    calls := calls w @
                      [Grafeas (ListOccurrencesRequest (''projects/'' @ projectID)
                                  (''resourceUrl='' @ Quote rt imageURL))]\<rparr>))
     \<and> (ListOccurrences client
           (ListOccurrencesRequest (''projects/'' @ projectID)
              (''kind="DISCOVERY" AND resourceUrl='' @ Quote rt imageURL)) = it
        \<longrightarrow> getDiscoveryInfo rt client imageURL projectID w
          = Some (None,
                  w\<lparr>stdout := stdout w @ printed rt it 0 n,
                    calls := calls w @
                      [Grafeas (ListOccurrencesRequest (''projects/'' @ projectID)
                                  (''kind="DISCOVERY" AND resourceUrl='' @ Quote rt imageURL))]\<rparr>))
     \<and> length (printed rt it 0 n) = n
     \<and> (\<forall>j<n. printed rt it 0 n ! j = formatOccurrence rt (fst (it j)) @ [CHR 0x0A])
     \<and> (n < 2 ^ 63 \<longrightarrow> sint (of_nat n :: int64) = int n)\<close>
proof -
  have a: "\<forall>j<n. snd (it (0 + j)) = None"
    using assms(1) by (simp only: yields_iff)
  have b: "snd (it (0 + n)) = Some Done"
    using assms(2) by simp
  have c: "getOccurrencesForNote_loop rt it 0 0 w'
             = Some ((of_nat n, None), w'\<lparr>stdout := stdout w' @ printed rt it 0 n\<rparr>)" for w'
    using ForNote_loop_Done [OF a b, of rt 0 w'] by simp
  have i: "getOccurrencesForImage_loop rt it 0 0 w'
             = Some ((of_nat n, None), w'\<lparr>stdout := stdout w' @ printed rt it 0 n\<rparr>)" for w'
    using ForImage_loop_Done [OF a b, of rt 0 w'] by simp
  have d: "getDiscoveryInfo_loop rt it 0 w'
             = Some (None, w'\<lparr>stdout := stdout w' @ printed rt it 0 n\<rparr>)" for w'
    using Discovery_loop_Done [OF a b, of rt w'] by simp
  show ?thesis
    by (simp only: getOccurrencesForNote_unfold getOccurrencesForImage_unfold
          getDiscoveryInfo_unfold)
       (simp add: c i d invoke_def printed_length printed_nth sint_count)
qed

theorem listing_to_end_of_stream_witness:
  \<open>getOccurrencesForNote rt0 (fake cursor_ok) ''n'' ''p'' w0
     = Some ((2, None),
             \<lparr>stdout = [''a\<newline>'', ''b\<newline>''],
              calls = [Grafeas (ListNoteOccurrencesRequest ''projects/p/notes/n'')]\<rparr>)
   \<and> getOccurrencesForImage rt0 (fake cursor_ok) ''gcr.io/p/img'' ''p'' w0
     = Some ((2, None),
             \<lparr>stdout = [''a\<newline>'', ''b\<newline>''],
              calls = [Grafeas (ListOccurrencesRequest ''projects/p''
                         ''resourceUrl="gcr.io/p/img"'')]\<rparr>)
   \<and> getDiscoveryInfo rt0 (fake cursor_ok) ''gcr.io/p/img'' ''p'' w0
     = Some (None,
             \<lparr>stdout = [''a\<newline>'', ''b\<newline>''],
              calls = [Grafeas (ListOccurrencesRequest ''projects/p''
                         ''kind="DISCOVERY" AND resourceUrl="gcr.io/p/img"'')]\<rparr>)
   \<and> sint (2 :: int64) = 2\<close>
proof -
  have ends: "snd (cursor_ok 2) = Some Done"
    by (simp add: cursor_ok_def)
  have cursor: "ListNoteOccurrences (fake cursor_ok) r = cursor_ok"
    "ListOccurrences (fake cursor_ok) r = cursor_ok" for r
    by (simp_all add: fake_def)
  have small: "(2 :: nat) < 2 ^ 63"
    by simp
  from listing_to_end_of_stream [OF yields_cursor_ok ends,
         of "fake cursor_ok" "''p''" "''n''" rt0 w0 "''gcr.io/p/img''"] small
  show ?thesis
    by (simp add: cursor printed_cursor_ok Quote_plain [OF plain_image] w0_def
          spec_notePath_def)
qed

text \<open>
  C2 as stated fails for \<open>getDiscoveryInfo\<close>: on a cursor of two elements it returns
  nil alone; no count is among its results.
\<close>

theorem getDiscoveryInfo_count_counterexample:
  "results_error (getDiscoveryInfo rt0 (fake cursor_ok) ''gcr.io/p/img'' ''p'' w0)
     = Some [error_result None]
   \<and> results_error (getDiscoveryInfo rt0 (fake cursor_ok) ''gcr.io/p/img'' ''p'' w0)
     \<noteq> Some [int_result 2, error_result None]
   \<and> results_int_error (getOccurrencesForNote rt0 (fake cursor_ok) ''n'' ''p'' w0)
     = Some [int_result 2, error_result None]"
  by (simp add: run_Discovery_ok run_ForNote_ok results_error_def results_int_error_def)

text \<open>
  C3. Every sample returns the error of the client library as it received it:
  the eight single-call samples return the answer of their one remote call, the three
  listing samples return the error of the cursor (the end-of-stream value excepted), and
  the two Pub/Sub samples return the error of \<open>NewClient\<close>, of \<open>Receive\<close> or of
  \<open>CreateSubscription\<close>. The one exception is \<open>deleteDataset\<close>: it returns a new error
  whose message is a fixed prefix followed by the message of the error it received,
  \<open>Delete: \<close> for the remote delete and \<open>healthcare.New: \<close> for the construction of the
  service handle.
\<close>

theorem errors_propagate:
  \<open>fst (createNote rt client noteID projectID w)
     = CreateNote client
         (CreateNoteRequest (''projects/'' @ projectID) noteID
            (Some \<lparr>Note_Name = [], Note_Type = Some (Note_Vulnerability (Some Vulnerability))\<rparr>))
   \<and> fst (createOccurrence rt client imageURL noteID occProjectID noteProjectID w)
     = CreateOccurrence client
         (CreateOccurrenceRequest (''projects/'' @ occProjectID)
            (Some \<lparr>Occurrence_Name = [],
                   Occurrence_Resource = Some \<lparr>Uri = imageURL\<rparr>,
                   NoteName = spec_notePath noteProjectID noteID,
                   Occurrence_Details = Some (Occurrence_Vulnerability (Some Details))\<rparr>))
   \<and> fst (updateNote rt client updatedNote noteID projectID w)
     = UpdateNote client (UpdateNoteRequest (spec_notePath projectID noteID) updatedNote)
   \<and> fst (updateOccurrence rt client updatedOccurrence occurrenceName w)
     = UpdateOccurrence client (UpdateOccurrenceRequest occurrenceName updatedOccurrence)
   \<and> fst (deleteNote rt client noteID projectID w)
     = DeleteNote client (DeleteNoteRequest (spec_notePath projectID noteID))
   \<and> fst (deleteOccurrence rt client occurrenceName w)
     = DeleteOccurrence client (DeleteOccurrenceRequest occurrenceName)
   \<and> fst (getNote rt client noteID projectID w)
     = GetNote client (GetNoteRequest (spec_notePath projectID noteID))
   \<and> fst (getOccurrence rt client occurrenceName w)
     = GetOccurrence client (GetOccurrenceRequest occurrenceName)
   \<and> (yields
         (ListOccurrences client
            (ListOccurrencesRequest (''projects/'' @ projectID)
               (''kind="DISCOVERY" AND resourceUrl='' @ Quote rt imageURL))) k
       \<and> snd (ListOccurrences client
                 (ListOccurrencesRequest (''projects/'' @ projectID)
                    (''kind="DISCOVERY" AND resourceUrl='' @ Quote rt imageURL)) k) = Some e
       \<and> e \<noteq> Done \<longrightarrow>
       map_option fst (getDiscoveryInfo rt client imageURL projectID w) = Some (Some e))
   \<and> (yields
         (ListNoteOccurrences client (ListNoteOccurrencesRequest (spec_notePath projectID noteID)))
         k
       \<and> snd (ListNoteOccurrences client
                 (ListNoteOccurrencesRequest (spec_notePath projectID noteID)) k) = Some e
       \<and> e \<noteq> Done \<longrightarrow>
       map_option fst (getOccurrencesForNote rt client noteID projectID w)
         = Some (- 1, Some e))
   \<and> (yields
         (ListOccurrences client
            (ListOccurrencesRequest (''projects/'' @ projectID)
               (''resourceUrl='' @ Quote rt imageURL))) k
       \<and> snd (ListOccurrences client
                 (ListOccurrencesRequest (''projects/'' @ projectID)
                    (''resourceUrl='' @ Quote rt imageURL)) k) = Some e
       \<and> e \<noteq> Done \<longrightarrow>
       map_option fst (getOccurrencesForImage rt client imageURL projectID w)
         = Some (- 1, Some e))
   \<and> snd (fst (occurrencePubsub rt ps subscriptionID timeout projectID w))
     = (case NewClient ps projectID of
          Some err \<Rightarrow> Some err
        | None \<Rightarrow> snd (Receive ps projectID subscriptionID (timeout * 1000000000)))
   \<and> fst (createOccurrenceSubscription rt ps subscriptionID projectID w)
     = (case NewClient ps projectID of
          Some err \<Rightarrow> Some err
        | None \<Rightarrow>
            CreateSubscription ps projectID subscriptionID
              \<lparr>config_Topic = Some \<lparr>Topic_project = projectID, Topic_ID = spec_topicID\<rparr>\<rparr>)
   \<and> fst (fst (deleteDataset rt hc wr projectID location datasetID w))
     = (case NewService hc of
          Some err \<Rightarrow> Some (errorString (''healthcare.New: '' @ Error err))
        | None \<Rightarrow>
            (case Datasets_Delete_Do hc (spec_datasetPath projectID location datasetID) of
               Some err \<Rightarrow> Some (errorString (''Delete: '' @ Error err))
             | None \<Rightarrow> None))\<close>
proof -
  have single:
    "fst (createNote rt client noteID projectID w)
       = CreateNote client
           (CreateNoteRequest (''projects/'' @ projectID) noteID
              (Some \<lparr>Note_Name = [],
                     Note_Type = Some (Note_Vulnerability (Some Vulnerability))\<rparr>))"
    "fst (createOccurrence rt client imageURL noteID occProjectID noteProjectID w)
       = CreateOccurrence client
           (CreateOccurrenceRequest (''projects/'' @ occProjectID)
              (Some \<lparr>Occurrence_Name = [],
                     Occurrence_Resource = Some \<lparr>Uri = imageURL\<rparr>,
                     NoteName = spec_notePath noteProjectID noteID,
                     Occurrence_Details = Some (Occurrence_Vulnerability (Some Details))\<rparr>))"
    "fst (updateNote rt client updatedNote noteID projectID w)
       = UpdateNote client (UpdateNoteRequest (spec_notePath projectID noteID) updatedNote)"
    "fst (updateOccurrence rt client updatedOccurrence occurrenceName w)
       = UpdateOccurrence client (UpdateOccurrenceRequest occurrenceName updatedOccurrence)"
    "fst (deleteNote rt client noteID projectID w)
       = DeleteNote client (DeleteNoteRequest (spec_notePath projectID noteID))"
    "fst (deleteOccurrence rt client occurrenceName w)
       = DeleteOccurrence client (DeleteOccurrenceRequest occurrenceName)"
    "fst (getNote rt client noteID projectID w)
       = GetNote client (GetNoteRequest (spec_notePath projectID noteID))"
    "fst (getOccurrence rt client occurrenceName w)
       = GetOccurrence client (GetOccurrenceRequest occurrenceName)"
    by (simp_all add: createNote_def createOccurrence_def updateNote_def updateOccurrence_def
          deleteNote_def deleteOccurrence_def getNote_def getOccurrence_def
          Sprintf_project Sprintf_note spec_notePath_def Let_def split: prod.split)
  have discovery:
    \<open>yields
         (ListOccurrences client
            (ListOccurrencesRequest (''projects/'' @ projectID)
               (''kind="DISCOVERY" AND resourceUrl='' @ Quote rt imageURL))) k
       \<and> snd (ListOccurrences client
                 (ListOccurrencesRequest (''projects/'' @ projectID)
                    (''kind="DISCOVERY" AND resourceUrl='' @ Quote rt imageURL)) k) = Some e
       \<and> e \<noteq> Done \<longrightarrow>
       map_option fst (getDiscoveryInfo rt client imageURL projectID w) = Some (Some e)\<close>
    by (simp only: getDiscoveryInfo_unfold yields_iff)
       (auto simp: Discovery_loop_error [where i = 0 and k = k])
  have forNote:
    "yields
         (ListNoteOccurrences client (ListNoteOccurrencesRequest (spec_notePath projectID noteID)))
         k
       \<and> snd (ListNoteOccurrences client
                 (ListNoteOccurrencesRequest (spec_notePath projectID noteID)) k) = Some e
       \<and> e \<noteq> Done \<longrightarrow>
       map_option fst (getOccurrencesForNote rt client noteID projectID w)
         = Some (- 1, Some e)"
    by (simp only: getOccurrencesForNote_unfold yields_iff)
       (auto simp: ForNote_loop_error [where i = 0 and k = k])
  have forImage:
    "yields
         (ListOccurrences client
            (ListOccurrencesRequest (''projects/'' @ projectID)
               (''resourceUrl='' @ Quote rt imageURL))) k
       \<and> snd (ListOccurrences client
                 (ListOccurrencesRequest (''projects/'' @ projectID)
                    (''resourceUrl='' @ Quote rt imageURL)) k) = Some e
       \<and> e \<noteq> Done \<longrightarrow>
       map_option fst (getOccurrencesForImage rt client imageURL projectID w)
         = Some (- 1, Some e)"
    by (simp only: getOccurrencesForImage_unfold yields_iff)
       (auto simp: ForImage_loop_error [where i = 0 and k = k])
  have pubsub:
    "snd (fst (occurrencePubsub rt ps subscriptionID timeout projectID w))
       = (case NewClient ps projectID of
            Some err \<Rightarrow> Some err
          | None \<Rightarrow> snd (Receive ps projectID subscriptionID (timeout * 1000000000)))"
    by (auto simp: occurrencePubsub_def Let_def split: option.split prod.split)
  have subscription:
    "fst (createOccurrenceSubscription rt ps subscriptionID projectID w)
       = (case NewClient ps projectID of
            Some err \<Rightarrow> Some err
          | None \<Rightarrow>
              CreateSubscription ps projectID subscriptionID
                \<lparr>config_Topic = Some \<lparr>Topic_project = projectID, Topic_ID = spec_topicID\<rparr>\<rparr>)"
    by (simp add: createOccurrenceSubscription_def spec_topicID_def Let_def split: option.split)
  have dataset:
    "fst (fst (deleteDataset rt hc wr projectID location datasetID w))
       = (case NewService hc of
            Some err \<Rightarrow> Some (errorString (''healthcare.New: '' @ Error err))
          | None \<Rightarrow>
              (case Datasets_Delete_Do hc (spec_datasetPath projectID location datasetID) of
                 Some err \<Rightarrow> Some (errorString (''Delete: '' @ Error err))
               | None \<Rightarrow> None))"
    by (simp add: deleteDataset_def Sprintf_dataset spec_datasetPath_def Errorf_New Errorf_Delete
          Let_def split: option.split)
  from single discovery forNote forImage pubsub subscription dataset show ?thesis
    by (intro conjI)
qed

theorem errors_propagate_witness:
  "fst (deleteNote rt0 (fake cursor_fail) ''n'' ''p'' w0) = Some unavailable
   \<and> fst (getNote rt0 (fake cursor_fail) ''n'' ''p'' w0) = (None, Some unavailable)
   \<and> map_option fst (getDiscoveryInfo rt0 (fake cursor_fail) ''gcr.io/p/img'' ''p'' w0)
       = Some (Some unavailable)
   \<and> map_option fst (getOccurrencesForNote rt0 (fake cursor_fail) ''n'' ''p'' w0)
       = Some (- 1, Some unavailable)
   \<and> map_option fst (getOccurrencesForImage rt0 (fake cursor_fail) ''gcr.io/p/img'' ''p'' w0)
       = Some (- 1, Some unavailable)
   \<and> snd (fst (occurrencePubsub rt0 pubsub_broken ''s'' 5 ''p'' w0)) = Some unavailable
   \<and> fst (createOccurrenceSubscription rt0 pubsub_broken ''s'' ''p'' w0) = Some unavailable
   \<and> fst (fst (deleteDataset rt0 healthcare_denied [] ''p'' ''us-central1'' ''d'' w0))
       = Some (errorString ''Delete: unavailable'')"
proof -
  have stops: "snd (cursor_fail 2) = Some unavailable" "unavailable \<noteq> Done"
    by (simp_all add: cursor_fail_def unavailable_def)
  from errors_propagate
         [where rt = rt0 and client = "fake cursor_fail" and noteID = "''n''"
            and projectID = "''p''" and w = w0 and imageURL = "''gcr.io/p/img''"
            and k = 2 and e = unavailable and ps = pubsub_broken and subscriptionID = "''s''"
            and timeout = 5 and hc = healthcare_denied and wr = "[]"
            and location = "''us-central1''" and datasetID = "''d''"]
       yields_cursor_fail stops
  show ?thesis
    by (simp add: fake_def pubsub_broken_def healthcare_denied_def unavailable_def)
qed

text \<open>
  C4. Every sample that addresses a Note by a project id and a note id sends the name
  \<open>projects/{projectID}/notes/{noteID}\<close>: \<open>updateNote\<close>, \<open>deleteNote\<close> and \<open>getNote\<close> in
  the one request they send, \<open>getOccurrencesForNote\<close> in the listing request it sends
  before it reads the cursor, and \<open>createOccurrence\<close> in the note reference of the
  occurrence it sends.
\<close>

theorem note_name_composed:
  "calls (snd (updateNote rt client updated noteID projectID w))
     = calls w @ [Grafeas (UpdateNoteRequest (spec_notePath projectID noteID) updated)]
   \<and> calls (snd (deleteNote rt client noteID projectID w))
     = calls w @ [Grafeas (DeleteNoteRequest (spec_notePath projectID noteID))]
   \<and> calls (snd (getNote rt client noteID projectID w))
     = calls w @ [Grafeas (GetNoteRequest (spec_notePath projectID noteID))]
   \<and> getOccurrencesForNote rt client noteID projectID w
     = getOccurrencesForNote_loop rt
         (ListNoteOccurrences client (ListNoteOccurrencesRequest (spec_notePath projectID noteID)))
         0 0 (invoke (Grafeas (ListNoteOccurrencesRequest (spec_notePath projectID noteID))) w)
   \<and> (\<forall>res. getOccurrencesForNote rt client noteID projectID w = Some res \<longrightarrow>
          calls (snd res)
            = calls w @ [Grafeas (ListNoteOccurrencesRequest (spec_notePath projectID noteID))])
   \<and> calls (snd (createOccurrence rt client imageURL noteID occProjectID projectID w))
     = calls w @
       [Grafeas
          (CreateOccurrenceRequest (''projects/'' @ occProjectID)
             (Some \<lparr>Occurrence_Name = [],
                    Occurrence_Resource = Some \<lparr>Uri = imageURL\<rparr>,
                    NoteName = spec_notePath projectID noteID,
                    Occurrence_Details = Some (Occurrence_Vulnerability (Some Details))\<rparr>))]"
proof -
  have update: "calls (snd (updateNote rt client updated noteID projectID w))
     = calls w @ [Grafeas (UpdateNoteRequest (spec_notePath projectID noteID) updated)]"
    by (simp add: updateNote_def Sprintf_note spec_notePath_def Let_def invoke_def)
  have delete: "calls (snd (deleteNote rt client noteID projectID w))
     = calls w @ [Grafeas (DeleteNoteRequest (spec_notePath projectID noteID))]"
    by (simp add: deleteNote_def Sprintf_note spec_notePath_def Let_def invoke_def)
  have get: "calls (snd (getNote rt client noteID projectID w))
     = calls w @ [Grafeas (GetNoteRequest (spec_notePath projectID noteID))]"
    by (simp add: getNote_def Sprintf_note spec_notePath_def Let_def invoke_def Println_def
          split: prod.split)
  have listed: "\<forall>res. getOccurrencesForNote rt client noteID projectID w = Some res \<longrightarrow>
          calls (snd res)
            = calls w @ [Grafeas (ListNoteOccurrencesRequest (spec_notePath projectID noteID))]"
    by (simp only: getOccurrencesForNote_unfold) (auto dest: ForNote_loop_calls simp: invoke_def)
  have created:
    "calls (snd (createOccurrence rt client imageURL noteID occProjectID projectID w))
       = calls w @
         [Grafeas
            (CreateOccurrenceRequest (''projects/'' @ occProjectID)
               (Some \<lparr>Occurrence_Name = [],
                      Occurrence_Resource = Some \<lparr>Uri = imageURL\<rparr>,
                      NoteName = spec_notePath projectID noteID,
                      Occurrence_Details = Some (Occurrence_Vulnerability (Some Details))\<rparr>))]"
    by (simp add: createOccurrence_def Sprintf_project Sprintf_note spec_notePath_def Let_def
          invoke_def)
  show ?thesis
    by (intro conjI) (rule update delete get getOccurrencesForNote_unfold listed created)+
qed

theorem note_name_composed_witness:
  "map_option (calls \<circ> snd) (getOccurrencesForNote rt0 (fake cursor_ok) ''n'' ''p'' w0)
     = Some [Grafeas (ListNoteOccurrencesRequest ''projects/p/notes/n'')]
   \<and> calls (snd (createOccurrence rt0 (fake cursor_ok) ''gcr.io/p/img'' ''n'' ''q'' ''p'' w0))
     = [Grafeas
          (CreateOccurrenceRequest ''projects/q''
             (Some \<lparr>Occurrence_Name = [],
                    Occurrence_Resource = Some \<lparr>Uri = ''gcr.io/p/img''\<rparr>,
                    NoteName = ''projects/p/notes/n'',
                    Occurrence_Details = Some (Occurrence_Vulnerability (Some Details))\<rparr>))]
   \<and> calls (snd (updateNote rt0 (fake cursor_ok) None ''n'' ''p'' w0))
     = [Grafeas (UpdateNoteRequest ''projects/p/notes/n'' None)]
   \<and> calls (snd (deleteNote rt0 (fake cursor_ok) ''n'' ''p'' w0))
     = [Grafeas (DeleteNoteRequest ''projects/p/notes/n'')]
   \<and> calls (snd (getNote rt0 (fake cursor_ok) ''n'' ''p'' w0))
     = [Grafeas (GetNoteRequest ''projects/p/notes/n'')]"
proof -
  note at_note = note_name_composed
         [of rt0 "fake cursor_ok" None "''n''" "''p''" w0 "''gcr.io/p/img''" "''q''"]
  have path: "spec_notePath ''p'' ''n'' = ''projects/p/notes/n''"
    by (simp add: spec_notePath_def)
  have start: "calls w0 = []"
    by (simp add: w0_def)
  obtain res where res: "getOccurrencesForNote rt0 (fake cursor_ok) ''n'' ''p'' w0 = Some res"
    using run_ForNote_ok by blast
  from at_note [THEN conjunct2, THEN conjunct2, THEN conjunct2, THEN conjunct2, THEN conjunct1,
         rule_format, OF res]
  have listed: "calls (snd res) = [Grafeas (ListNoteOccurrencesRequest ''projects/p/notes/n'')]"
    by (simp only: path start append_Nil)
  from at_note [THEN conjunct2, THEN conjunct2, THEN conjunct2, THEN conjunct2, THEN conjunct2]
  have created:
    "calls (snd (createOccurrence rt0 (fake cursor_ok) ''gcr.io/p/img'' ''n'' ''q'' ''p'' w0))
       = [Grafeas
            (CreateOccurrenceRequest ''projects/q''
               (Some \<lparr>Occurrence_Name = [],
                      Occurrence_Resource = Some \<lparr>Uri = ''gcr.io/p/img''\<rparr>,
                      NoteName = ''projects/p/notes/n'',
                      Occurrence_Details = Some (Occurrence_Vulnerability (Some Details))\<rparr>))]"
    by (simp only: path start append_Nil) simp
  from at_note [THEN conjunct1]
  have updated: "calls (snd (updateNote rt0 (fake cursor_ok) None ''n'' ''p'' w0))
                   = [Grafeas (UpdateNoteRequest ''projects/p/notes/n'' None)]"
    by (simp only: path start append_Nil)
  from at_note [THEN conjunct2, THEN conjunct1]
  have deleted: "calls (snd (deleteNote rt0 (fake cursor_ok) ''n'' ''p'' w0))
                   = [Grafeas (DeleteNoteRequest ''projects/p/notes/n'')]"
    by (simp only: path start append_Nil)
  from at_note [THEN conjunct2, THEN conjunct2, THEN conjunct1]
  have got: "calls (snd (getNote rt0 (fake cursor_ok) ''n'' ''p'' w0))
               = [Grafeas (GetNoteRequest ''projects/p/notes/n'')]"
    by (simp only: path start append_Nil)
  show ?thesis
    by (simp add: res listed created updated deleted got)
qed

text \<open>
  C5, as the code has it. When the Healthcare service handle is built without error,
  \<open>deleteDataset\<close> issues exactly one remote call, the delete of
  \<open>projects/{projectID}/locations/{location}/datasets/{datasetID}\<close>; when that delete
  succeeds it writes one line naming the dataset to its writer and returns nil. When
  \<open>healthcare.NewService\<close> fails, \<open>deleteDataset\<close> issues no remote call and writes
  nothing: it returns a new error, whose message is \<open>healthcare.New: \<close> followed by the
  message of the error it received.
\<close>

theorem deleteDataset_one_delete:
  "(NewService hc = None \<longrightarrow>
      calls (snd (deleteDataset rt hc wr projectID location datasetID w))
        = calls w @ [Datasets_Delete (spec_datasetPath projectID location datasetID)]
      \<and> (Datasets_Delete_Do hc (spec_datasetPath projectID location datasetID) = None \<longrightarrow>
           fst (deleteDataset rt hc wr projectID location datasetID w)
             = (None,
                wr @ [''Deleted dataset: ''
                        @ Quote rt (spec_datasetPath projectID location datasetID)
                        @ [CHR 0x0A]])))
   \<and> (\<forall>err. NewService hc = Some err \<longrightarrow>
         deleteDataset rt hc wr projectID location datasetID w
           = ((Some (errorString (''healthcare.New: '' @ Error err)), wr), w))"
proof (intro conjI impI allI)
  assume built: "NewService hc = None"
  from built
  show "calls (snd (deleteDataset rt hc wr projectID location datasetID w))
          = calls w @ [Datasets_Delete (spec_datasetPath projectID location datasetID)]"
    by (simp add: deleteDataset_def Sprintf_dataset spec_datasetPath_def Let_def invoke_def
          split: option.split)
  assume "Datasets_Delete_Do hc (spec_datasetPath projectID location datasetID) = None"
  with built
  show "fst (deleteDataset rt hc wr projectID location datasetID w)
          = (None,
             wr @ [''Deleted dataset: ''
                     @ Quote rt (spec_datasetPath projectID location datasetID)
                     @ [CHR 0x0A]])"
    by (simp add: deleteDataset_def Sprintf_dataset Sprintf_deleted spec_datasetPath_def Let_def
          Fprintf_def)
next
  fix err
  assume "NewService hc = Some err"
  then show "deleteDataset rt hc wr projectID location datasetID w
               = ((Some (errorString (''healthcare.New: '' @ Error err)), wr), w)"
    by (simp add: deleteDataset_def Errorf_New)
qed

theorem deleteDataset_one_delete_witness:
  "calls (snd (deleteDataset rt0 healthcare_ok [] ''p'' ''us-central1'' ''d'' w0))
     = [Datasets_Delete ''projects/p/locations/us-central1/datasets/d'']
   \<and> fst (deleteDataset rt0 healthcare_ok [] ''p'' ''us-central1'' ''d'' w0)
     = (None,
        [''Deleted dataset: '' @ [CHR 0x22] @ ''projects/p/locations/us-central1/datasets/d''
           @ [CHR 0x22, CHR 0x0A]])
   \<and> deleteDataset rt0 healthcare_unreachable [] ''p'' ''us-central1'' ''d'' w0
     = ((Some (errorString ''healthcare.New: unavailable''), []), w0)"
proof -
  have built: "NewService healthcare_ok = None"
    by (simp add: healthcare_ok_def)
  have deleted: "Datasets_Delete_Do healthcare_ok (spec_datasetPath ''p'' ''us-central1'' ''d'')
                   = None"
    by (simp add: healthcare_ok_def)
  have failed: "NewService healthcare_unreachable = Some unavailable"
    by (simp add: healthcare_unreachable_def)
  have quoted: "Quote rt0 (spec_datasetPath ''p'' ''us-central1'' ''d'')
                  = CHR 0x22 # ''projects/p/locations/us-central1/datasets/d'' @ [CHR 0x22]"
    by (simp add: spec_datasetPath_def Quote_def escapeASCII_def)
  have message: "''healthcare.New: '' @ Error unavailable = ''healthcare.New: unavailable''"
    by (simp add: unavailable_def)
  note ok = deleteDataset_one_delete
              [of healthcare_ok rt0 "[]" "''p''" "''us-central1''" "''d''" w0,
               THEN conjunct1, rule_format, OF built]
  from ok [THEN conjunct1]
  have one: "calls (snd (deleteDataset rt0 healthcare_ok [] ''p'' ''us-central1'' ''d'' w0))
               = [Datasets_Delete ''projects/p/locations/us-central1/datasets/d'']"
    by (simp add: w0_def spec_datasetPath_def)
  from ok [THEN conjunct2, rule_format, OF deleted]
  have nil: "fst (deleteDataset rt0 healthcare_ok [] ''p'' ''us-central1'' ''d'' w0)
               = (None,
                  [''Deleted dataset: '' @ [CHR 0x22]
                     @ ''projects/p/locations/us-central1/datasets/d'' @ [CHR 0x22, CHR 0x0A]])"
    by (simp add: quoted)
  from deleteDataset_one_delete
         [of healthcare_unreachable rt0 "[]" "''p''" "''us-central1''" "''d''" w0,
          THEN conjunct2, rule_format, OF failed]
  have none: "deleteDataset rt0 healthcare_unreachable [] ''p'' ''us-central1'' ''d'' w0
                = ((Some (errorString ''healthcare.New: unavailable''), []), w0)"
    by (simp only: message)
  from one nil none show ?thesis
    by (intro conjI)
qed

text \<open>
  C5 as stated fails when \<open>healthcare.NewService\<close> returns an error: \<open>deleteDataset\<close>
  returns at once, and no delete is issued.
\<close>

theorem deleteDataset_no_service_counterexample:
  "calls (snd (deleteDataset rt0 healthcare_down [] ''p'' ''us-central1'' ''d'' w0)) = []
   \<and> calls (snd (deleteDataset rt0 healthcare_down [] ''p'' ''us-central1'' ''d'' w0))
       \<noteq> [Datasets_Delete (spec_datasetPath ''p'' ''us-central1'' ''d'')]
   \<and> fst (fst (deleteDataset rt0 healthcare_down [] ''p'' ''us-central1'' ''d'' w0))
       = Some (errorString ''healthcare.New: no credentials'')"
  by (simp add: deleteDataset_def healthcare_down_def w0_def Errorf_New)

text \<open>
  C6. In a session of \<open>occurrencePubsub\<close> where the Pub/Sub client is built, \<open>n\<close>
  messages are delivered before the deadline ends the session, and \<open>Receive\<close> then
  returns without error: each delivered message adds one to the counter, is printed
  on a line with its number, and is acknowledged (once, in the order of delivery); the
  final count \<open>n\<close> is printed and returned, with no error.
\<close>

theorem occurrencePubsub_counts:
  assumes "NewClient ps projectID = None"
    and "Receive ps projectID subscriptionID (timeout * 1000000000) = (msgs, None)"
  shows
    "occurrencePubsub rt ps subscriptionID timeout projectID w
       = ((of_nat (length msgs), None),
          w\<lparr>stdout := stdout w @ messageLines rt 0 msgs
                         @ [Itoa (sint (of_nat (length msgs) :: int64)) @ [CHR 0x0A]],
            calls := calls w
                       @ Subscription_Receive projectID subscriptionID (timeout * 1000000000)
                         # map (\<lambda>m. Message_Ack (ID m)) msgs\<rparr>)
     \<and> length (messageLines rt 0 msgs) = length msgs
     \<and> (\<forall>i < length msgs.
           messageLines rt 0 msgs ! i
             = ''Message '' @ Itoa (sint (of_nat (Suc i) :: int64)) @ '': ''
                 @ Quote rt (Data (msgs ! i)) @ [CHR 0x0A])
     \<and> (length msgs < 2 ^ 63 \<longrightarrow> sint (of_nat (length msgs) :: int64) = int (length msgs))"
proof -
  have run: "occurrencePubsub rt ps subscriptionID timeout projectID w
       = ((of_nat (length msgs), None),
          w\<lparr>stdout := stdout w @ messageLines rt 0 msgs
                         @ [Itoa (sint (of_nat (length msgs) :: int64)) @ [CHR 0x0A]],
            calls := calls w
                       @ Subscription_Receive projectID subscriptionID (timeout * 1000000000)
                         # map (\<lambda>m. Message_Ack (ID m)) msgs\<rparr>)"
    using assms
    by (simp add: occurrencePubsub_def Let_def fold_callback invoke_def Println_def)
  have lines: "\<forall>i < length msgs.
           messageLines rt 0 msgs ! i
             = ''Message '' @ Itoa (sint (of_nat (Suc i) :: int64)) @ '': ''
                 @ Quote rt (Data (msgs ! i)) @ [CHR 0x0A]"
    using messageLines_nth [of _ msgs rt 0] by simp
  have count: "length msgs < 2 ^ 63 \<longrightarrow>
                 sint (of_nat (length msgs) :: int64) = int (length msgs)"
    by (simp add: sint_count)
  from run messageLines_length [of rt 0 msgs] lines count show ?thesis
    by (intro conjI)
qed

theorem occurrencePubsub_counts_witness:
  "occurrencePubsub rt0
     (pubsub_ok [\<lparr>ID = ''1'', Data = ''hello''\<rparr>, \<lparr>ID = ''2'', Data = ''bye''\<rparr>])
     ''s'' 5 ''p'' w0
     = ((2, None),
        \<lparr>stdout = [''Message 1: '' @ [CHR 0x22] @ ''hello'' @ [CHR 0x22, CHR 0x0A],
                   ''Message 2: '' @ [CHR 0x22] @ ''bye'' @ [CHR 0x22, CHR 0x0A],
                   ''2\<newline>''],
         calls = [Subscription_Receive ''p'' ''s'' 5000000000, Message_Ack ''1'',
                  Message_Ack ''2'']\<rparr>)"
proof -
  let ?msgs = "[\<lparr>ID = ''1'', Data = ''hello''\<rparr>, \<lparr>ID = ''2'', Data = ''bye''\<rparr>]"
  have built: "NewClient (pubsub_ok ?msgs) ''p'' = None"
    by (simp add: pubsub_ok_def)
  have session: "Receive (pubsub_ok ?msgs) ''p'' ''s'' (5 * 1000000000) = (?msgs, None)"
    by (simp add: pubsub_ok_def)
  have one: "Itoa 1 = ''1''" and two: "Itoa 2 = ''2''"
    by (simp_all add: Itoa_def digits.simps)
  have quoted: "Quote rt0 ''hello'' = CHR 0x22 # ''hello'' @ [CHR 0x22]"
    "Quote rt0 ''bye'' = CHR 0x22 # ''bye'' @ [CHR 0x22]"
    by (simp_all add: Quote_plain plain_def)
  from occurrencePubsub_counts [OF built session, of rt0 w0, THEN conjunct1]
  show ?thesis
    by (simp add: one two quoted w0_def)
qed

text \<open>
  C7. The only subscription \<open>createOccurrenceSubscription\<close> asks the service to create
  is bound to the topic with the fixed id \<open>container-analysis-occurrences-v1beta1\<close> in
  the client's project, whatever the subscription id and the project id are; it asks
  for it whenever the Pub/Sub client could be built, and issues no call otherwise.
\<close>

theorem subscription_topic_fixed:
  "calls (snd (createOccurrenceSubscription rt ps subscriptionID projectID w))
     = calls w @
       (case NewClient ps projectID of
          None \<Rightarrow>
            [Client_CreateSubscription projectID subscriptionID
               \<lparr>config_Topic = Some \<lparr>Topic_project = projectID, Topic_ID = spec_topicID\<rparr>\<rparr>]
        | Some err \<Rightarrow> [])
   \<and> spec_topicID = ''container-analysis-occurrences-v1beta1''"
  by (simp add: createOccurrenceSubscription_def spec_topicID_def Let_def invoke_def
        split: option.split)

text \<open>
  C8, as the code has it. \<open>getDiscoveryInfo\<close> sends the list filter
  \<open>kind="DISCOVERY" AND resourceUrl=\<close> followed by the image URL as the verb \<open>%q\<close>
  writes it, and \<open>getOccurrencesForImage\<close> sends \<open>resourceUrl=\<close> followed by the same:
  the URL between double quotes, with every double quote, backslash and non-printable
  byte in it escaped. For a URL of printable ASCII characters other than the double
  quote and the backslash this is the URL itself between double quotes, the filter the
  specification writes.
\<close>

theorem filters_quote_the_url:
  \<open>getDiscoveryInfo rt client imageURL projectID w
     = getDiscoveryInfo_loop rt
         (ListOccurrences client
            (ListOccurrencesRequest (''projects/'' @ projectID)
               (''kind="DISCOVERY" AND resourceUrl='' @ Quote rt imageURL)))
         0
         (invoke (Grafeas (ListOccurrencesRequest (''projects/'' @ projectID)
                             (''kind="DISCOVERY" AND resourceUrl='' @ Quote rt imageURL))) w)
   \<and> getOccurrencesForImage rt client imageURL projectID w
     = getOccurrencesForImage_loop rt
         (ListOccurrences client
            (ListOccurrencesRequest (''projects/'' @ projectID)
               (''resourceUrl='' @ Quote rt imageURL)))
         0 0
         (invoke (Grafeas (ListOccurrencesRequest (''projects/'' @ projectID)
                             (''resourceUrl='' @ Quote rt imageURL))) w)
   \<and> (\<forall>res. getDiscoveryInfo rt client imageURL projectID w = Some res \<longrightarrow>
          calls (snd res)
            = calls w @
              [Grafeas (ListOccurrencesRequest (''projects/'' @ projectID)
                          (''kind="DISCOVERY" AND resourceUrl='' @ Quote rt imageURL))])
   \<and> (\<forall>res. getOccurrencesForImage rt client imageURL projectID w = Some res \<longrightarrow>
          calls (snd res)
            = calls w @
              [Grafeas (ListOccurrencesRequest (''projects/'' @ projectID)
                          (''resourceUrl='' @ Quote rt imageURL))])
   \<and> (list_all plain imageURL \<longrightarrow>
          ''kind="DISCOVERY" AND resourceUrl='' @ Quote rt imageURL
            = spec_discoveryFilter imageURL
          \<and> ''resourceUrl='' @ Quote rt imageURL = spec_imageFilter imageURL)\<close>
proof -
  have discovery:
    \<open>\<forall>res. getDiscoveryInfo rt client imageURL projectID w = Some res \<longrightarrow>
          calls (snd res)
            = calls w @
              [Grafeas (ListOccurrencesRequest (''projects/'' @ projectID)
                          (''kind="DISCOVERY" AND resourceUrl='' @ Quote rt imageURL))]\<close>
    by (simp only: getDiscoveryInfo_unfold) (auto dest: Discovery_loop_calls simp: invoke_def)
  have image:
    "\<forall>res. getOccurrencesForImage rt client imageURL projectID w = Some res \<longrightarrow>
          calls (snd res)
            = calls w @
              [Grafeas (ListOccurrencesRequest (''projects/'' @ projectID)
                          (''resourceUrl='' @ Quote rt imageURL))]"
    by (simp only: getOccurrencesForImage_unfold) (auto dest: ForImage_loop_calls simp: invoke_def)
  have quoted:
    \<open>list_all plain imageURL \<longrightarrow>
          ''kind="DISCOVERY" AND resourceUrl='' @ Quote rt imageURL
            = spec_discoveryFilter imageURL
          \<and> ''resourceUrl='' @ Quote rt imageURL = spec_imageFilter imageURL\<close>
    by (simp add: Quote_plain spec_discoveryFilter_def spec_imageFilter_def)
  show ?thesis
    by (intro conjI) (rule getDiscoveryInfo_unfold getOccurrencesForImage_unfold discovery image
          quoted)+
qed

theorem filters_quote_the_url_witness:
  \<open>map_option (calls \<circ> snd) (getDiscoveryInfo rt0 (fake cursor_ok) ''gcr.io/p/img'' ''p'' w0)
     = Some [Grafeas (ListOccurrencesRequest ''projects/p''
                        (spec_discoveryFilter ''gcr.io/p/img''))]
   \<and> map_option (calls \<circ> snd)
         (getOccurrencesForImage rt0 (fake cursor_ok) ''gcr.io/p/img'' ''p'' w0)
     = Some [Grafeas (ListOccurrencesRequest ''projects/p''
                        (spec_imageFilter ''gcr.io/p/img''))]
   \<and> spec_discoveryFilter ''gcr.io/p/img'' = ''kind="DISCOVERY" AND resourceUrl="gcr.io/p/img"''
   \<and> spec_imageFilter ''gcr.io/p/img'' = ''resourceUrl="gcr.io/p/img"''\<close>
proof -
  note at_image = filters_quote_the_url [of rt0 "fake cursor_ok" "''gcr.io/p/img''" "''p''" w0]
  from at_image [THEN conjunct2, THEN conjunct2, THEN conjunct2, THEN conjunct2]
       plain_image
  have filters:
    \<open>''kind="DISCOVERY" AND resourceUrl='' @ Quote rt0 ''gcr.io/p/img''
       = spec_discoveryFilter ''gcr.io/p/img''\<close>
    \<open>''resourceUrl='' @ Quote rt0 ''gcr.io/p/img'' = spec_imageFilter ''gcr.io/p/img''\<close>
    by blast+
  obtain d where d: "getDiscoveryInfo rt0 (fake cursor_ok) ''gcr.io/p/img'' ''p'' w0 = Some d"
    using run_Discovery_ok by blast
  obtain i where i: "getOccurrencesForImage rt0 (fake cursor_ok) ''gcr.io/p/img'' ''p'' w0 = Some i"
    using run_ForImage_ok by blast
  from at_image [THEN conjunct2, THEN conjunct2, THEN conjunct1, rule_format, OF d]
  have sent_d: "calls (snd d)
                  = [Grafeas (ListOccurrencesRequest ''projects/p''
                                (spec_discoveryFilter ''gcr.io/p/img''))]"
    by (simp only: filters) (simp add: w0_def)
  from at_image [THEN conjunct2, THEN conjunct2, THEN conjunct2, THEN conjunct1, rule_format,
         OF i]
  have sent_i: "calls (snd i)
                  = [Grafeas (ListOccurrencesRequest ''projects/p''
                                (spec_imageFilter ''gcr.io/p/img''))]"
    by (simp only: filters) (simp add: w0_def)
  show ?thesis
    by (simp add: d i sent_d sent_i) (simp add: spec_discoveryFilter_def spec_imageFilter_def)
qed

text \<open>
  C8 as stated fails for an image URL that holds a double quote: the filter sent has
  the quote escaped, and is not the URL between double quotes.
\<close>

theorem filter_escapes_quote_counterexample:
  \<open>map_option snd (getDiscoveryInfo rt0 (fake cursor_empty) [CHR 0x22] ''p'' w0)
     = Some \<lparr>stdout = [],
             calls = [Grafeas (ListOccurrencesRequest ''projects/p''
                        (''kind="DISCOVERY" AND resourceUrl=''
                           @ [CHR 0x22, CHR 0x5C, CHR 0x22, CHR 0x22]))]\<rparr>
   \<and> ''kind="DISCOVERY" AND resourceUrl='' @ [CHR 0x22, CHR 0x5C, CHR 0x22, CHR 0x22]
       \<noteq> spec_discoveryFilter [CHR 0x22]
   \<and> map_option snd (getOccurrencesForImage rt0 (fake cursor_empty) [CHR 0x22] ''p'' w0)
     = Some \<lparr>stdout = [],
             calls = [Grafeas (ListOccurrencesRequest ''projects/p''
                        (''resourceUrl='' @ [CHR 0x22, CHR 0x5C, CHR 0x22, CHR 0x22]))]\<rparr>
   \<and> ''resourceUrl='' @ [CHR 0x22, CHR 0x5C, CHR 0x22, CHR 0x22]
       \<noteq> spec_imageFilter [CHR 0x22]\<close>
  by (simp add: run_Discovery_quote run_ForImage_quote spec_discoveryFilter_def
        spec_imageFilter_def)

text \<open>
  C9. \<open>getNote\<close> and \<open>getOccurrence\<close> print the value they retrieved before anything
  looks at the error: whatever the remote call answers, the value is printed and the
  value and the error are both returned. When the call fails, the nil value is printed
  (as \<open><nil>\<close>) and returned with the error.
\<close>

theorem get_prints_before_error_check:
  "getNote rt client noteID projectID w
     = (GetNote client (GetNoteRequest (spec_notePath projectID noteID)),
        w\<lparr>stdout := stdout w @
             [formatNote rt (fst (GetNote client (GetNoteRequest (spec_notePath projectID noteID))))
                @ [CHR 0x0A]],
          calls := calls w @ [Grafeas (GetNoteRequest (spec_notePath projectID noteID))]\<rparr>)
   \<and> getOccurrence rt client occurrenceName w
     = (GetOccurrence client (GetOccurrenceRequest occurrenceName),
        w\<lparr>stdout := stdout w @
             [formatOccurrence rt (fst (GetOccurrence client (GetOccurrenceRequest occurrenceName)))
                @ [CHR 0x0A]],
          calls := calls w @ [Grafeas (GetOccurrenceRequest occurrenceName)]\<rparr>)
   \<and> (GetNote client (GetNoteRequest (spec_notePath projectID noteID)) = (None, Some e) \<longrightarrow>
        fst (getNote rt client noteID projectID w) = (None, Some e)
        \<and> stdout (snd (getNote rt client noteID projectID w)) = stdout w @ [''<nil>'' @ [CHR 0x0A]])
   \<and> (GetOccurrence client (GetOccurrenceRequest occurrenceName) = (None, Some e) \<longrightarrow>
        fst (getOccurrence rt client occurrenceName w) = (None, Some e)
        \<and> stdout (snd (getOccurrence rt client occurrenceName w))
            = stdout w @ [''<nil>'' @ [CHR 0x0A]])"
  by (simp add: getNote_def getOccurrence_def Sprintf_note spec_notePath_def Let_def
        Println_def invoke_def formatNote_def formatOccurrence_def split: prod.split)

theorem get_prints_before_error_check_witness:
  "fst (getNote rt0 (fake cursor_ok) ''n'' ''p'' w0) = (None, Some unavailable)
   \<and> stdout (snd (getNote rt0 (fake cursor_ok) ''n'' ''p'' w0)) = [''<nil>'' @ [CHR 0x0A]]
   \<and> fst (getOccurrence rt0 (fake cursor_ok) ''projects/p/occurrences/o'' w0)
        = (None, Some unavailable)
   \<and> stdout (snd (getOccurrence rt0 (fake cursor_ok) ''projects/p/occurrences/o'' w0))
        = [''<nil>'' @ [CHR 0x0A]]"
proof -
  have n: "GetNote (fake cursor_ok) (GetNoteRequest (spec_notePath ''p'' ''n''))
                = (None, Some unavailable)"
    by (simp add: fake_def)
  have occ: "GetOccurrence (fake cursor_ok) (GetOccurrenceRequest ''projects/p/occurrences/o'')
               = (None, Some unavailable)"
    by (simp add: fake_def)
  from get_prints_before_error_check
         [of rt0 "fake cursor_ok" "''n''" "''p''" w0 "''projects/p/occurrences/o''" unavailable]
       n occ
  show ?thesis by (simp add: w0_def formatNote_def formatOccurrence_def)
qed

text \<open>
  C10. \<open>createOccurrence\<close> builds the parent of the occurrence from \<open>occProjectID\<close> and
  the note reference from \<open>noteProjectID\<close> and \<open>noteID\<close>: the one request it sends has
  the parent \<open>projects/{occProjectID}\<close> and the note name
  \<open>projects/{noteProjectID}/notes/{noteID}\<close>; when the two project ids differ, the
  parent is not the project of the note.
\<close>

theorem createOccurrence_two_projects:
  "createOccurrence rt client imageURL noteID occProjectID noteProjectID w
     = (CreateOccurrence client
          (CreateOccurrenceRequest (''projects/'' @ occProjectID)
             (Some \<lparr>Occurrence_Name = [],
                    Occurrence_Resource = Some \<lparr>Uri = imageURL\<rparr>,
                    NoteName = ''projects/'' @ noteProjectID @ ''/notes/'' @ noteID,
                    Occurrence_Details = Some (Occurrence_Vulnerability (Some Details))\<rparr>)),
        w\<lparr>calls := calls w @
             [Grafeas
                (CreateOccurrenceRequest (''projects/'' @ occProjectID)
                   (Some \<lparr>Occurrence_Name = [],
                          Occurrence_Resource = Some \<lparr>Uri = imageURL\<rparr>,
                          NoteName = ''projects/'' @ noteProjectID @ ''/notes/'' @ noteID,
                          Occurrence_Details =
                            Some (Occurrence_Vulnerability (Some Details))\<rparr>))]\<rparr>)
   \<and> (occProjectID \<noteq> noteProjectID \<longrightarrow>
        (\<forall>c \<in> set (calls (snd (createOccurrence rt client imageURL noteID occProjectID
                                   noteProjectID (w\<lparr>calls := []\<rparr>)))).
           \<exists>req occ. c = Grafeas req \<and> Occurrence req = Some occ
             \<and> Parent req = ''projects/'' @ occProjectID
             \<and> Parent req \<noteq> ''projects/'' @ noteProjectID
             \<and> NoteName occ = spec_notePath noteProjectID noteID))"
  by (simp add: createOccurrence_def Sprintf_project Sprintf_note spec_notePath_def Let_def
        invoke_def)

theorem createOccurrence_two_projects_witness:
  "calls (snd (createOccurrence rt0 (fake cursor_ok) ''gcr.io/p/img'' ''n'' ''scanned''
                 ''provider'' w0))
     = [Grafeas
          (CreateOccurrenceRequest ''projects/scanned''
             (Some \<lparr>Occurrence_Name = [],
                    Occurrence_Resource = Some \<lparr>Uri = ''gcr.io/p/img''\<rparr>,
                    NoteName = ''projects/provider/notes/n'',
                    Occurrence_Details = Some (Occurrence_Vulnerability (Some Details))\<rparr>))]
   \<and> ''projects/scanned'' \<noteq> ''projects/provider''"
proof -
  have differ: "''scanned'' \<noteq> ''provider''" by simp
  from createOccurrence_two_projects
         [of rt0 "fake cursor_ok" "''gcr.io/p/img''" "''n''" "''scanned''" "''provider''" w0]
       differ
  show ?thesis by (simp add: w0_def)
qed

end
